theory Spec2Isabelle
  imports Main "HOL-Library.Word" "HOL-Library.Sublist"
begin

section \<open>JavaScript strings\<close>

text \<open>
  A JavaScript string is a sequence of UTF-16 code units. All string literals of the
  program are ASCII, so \<open>lit\<close> turns an Isabelle literal into the code units of the
  same JavaScript literal.
\<close>

type_synonym jschar = "16 word"
type_synonym jsstring = "jschar list"

definition lit :: "string \<Rightarrow> jsstring" where
  "lit s = map of_char s"

text \<open>
  \<open>String.prototype.trim\<close> removes the code points WhiteSpace and LineTerminator
  of ECMA-262 from both ends: TAB, LF, VT, FF, CR, SPACE, NBSP, the Unicode category
  Zs (U+1680, U+2000 to U+200A, U+202F, U+205F, U+3000), LS, PS and the BOM U+FEFF.
\<close>

definition is_trim_ws :: "jschar \<Rightarrow> bool" where
  "is_trim_ws c =
     (c \<in> set [0x9, 0xA, 0xB, 0xC, 0xD, 0x20, 0xA0, 0x1680, 0x2028, 0x2029, 0x202F,
               0x205F, 0x3000, 0xFEFF]
      \<or> (0x2000 \<le> c \<and> c \<le> 0x200A))"

definition trim :: "jsstring \<Rightarrow> jsstring" where
  "trim s = rev (dropWhile is_trim_ws (rev (dropWhile is_trim_ws s)))"

text \<open>\<open>s.includes(t)\<close>: \<open>t\<close> occurs in \<open>s\<close> as a contiguous substring.\<close>

fun str_includes :: "jsstring \<Rightarrow> jsstring \<Rightarrow> bool" where
  "str_includes [] t = (t = [])"
| "str_includes (c # cs) t = (prefix t (c # cs) \<or> str_includes cs t)"

text \<open>\<open>s.split(',')\<close>: the pieces of \<open>s\<close> between the separators, never an empty array.\<close>

fun split_on :: "jschar \<Rightarrow> jsstring \<Rightarrow> jsstring list" where
  "split_on sep [] = [[]]"
| "split_on sep (c # cs) =
     (if c = sep then [] # split_on sep cs
      else (case split_on sep cs of
              [] \<Rightarrow> [[c]]
            | p # ps \<Rightarrow> (c # p) # ps))"

section \<open>The request adapter: image header\<close>

definition semicolon :: jschar where
  "semicolon = 0x3B"

definition comma :: jschar where
  "comma = 0x2C"

text \<open>
  \<open>base64Image.match(/data:([^;]+);/)\<close>. The expression is not anchored, so the engine
  tries every start position from the left. At one position the literal \<open>data:\<close> must
  come first; the greedy class \<open>[^;]+\<close> then runs up to the next semicolon or to the end of
  the string, and giving characters back never helps, because the character after a
  shorter run is not a semicolon. So the attempt succeeds exactly when the run is not
  empty and a semicolon ends it, and group 1 is the run.
\<close>

definition match_here :: "jsstring \<Rightarrow> jsstring option" where
  "match_here s =
     (if prefix (lit ''data:'') s then
        (let r = drop 5 s; g = takeWhile (\<lambda>c. c \<noteq> semicolon) r
         in if g \<noteq> [] \<and> length g < length r then Some g else None)
      else None)"

fun match_group1 :: "jsstring \<Rightarrow> jsstring option" where
  "match_group1 [] = match_here []"
| "match_group1 (c # cs) =
     (case match_here (c # cs) of
        Some g \<Rightarrow> Some g
      | None \<Rightarrow> match_group1 cs)"

text \<open>\<open>const mimeType = base64Image.match(/data:([^;]+);/)?.[1] || 'image/png'\<close>\<close>

definition mimeType :: "jsstring \<Rightarrow> jsstring" where
  "mimeType base64Image =
     (case match_group1 base64Image of
        None \<Rightarrow> lit ''image/png''
      | Some g \<Rightarrow> if g = [] then lit ''image/png'' else g)"

text \<open>\<open>const base64Data = base64Image.split(',')[1] || base64Image\<close>\<close>

definition base64Data :: "jsstring \<Rightarrow> jsstring" where
  "base64Data base64Image =
     (case split_on comma base64Image of
        _ # p # _ \<Rightarrow> if p = [] then base64Image else p
      | _ \<Rightarrow> base64Image)"

section \<open>The request adapter: error classification\<close>

text \<open>
  The file of the adapter holds two copies of \<open>extractNumbersFromImage\<close>; suffix 1 is
  the first copy (lines 4 to 80) and suffix 2 the second (lines 86 to 156). An error is
  the message of the \<open>Error\<close> object thrown.
\<close>

definition SETUP_REQUIRED1 :: jsstring where
  "SETUP_REQUIRED1 =
     lit ''API Key missing! Please go to AI Studio 'API keys' tab and create a key first.''"

definition INVALID_KEY1 :: jsstring where
  "INVALID_KEY1 =
     lit ''Invalid API Key. Please generate a new key in AI Studio 'API keys' tab.''"

definition PERMISSION_DENIED1 :: jsstring where
  "PERMISSION_DENIED1 =
     lit ''Permission denied. Check if your API key has access to Gemini Flash.''"

definition RATE_LIMIT1 :: jsstring where
  "RATE_LIMIT1 = lit ''Rate limit reached. Please wait a few seconds.''"

definition GENERIC1 :: jsstring where
  "GENERIC1 = lit ''Could not process image. Ensure it's clear and contains numbers.''"

definition SETUP_REQUIRED2 :: jsstring where
  "SETUP_REQUIRED2 =
     lit ''SETUP_REQUIRED: API Key is missing. Please create a key in AI Studio 'API keys' tab.''"

definition INVALID_KEY2 :: jsstring where
  "INVALID_KEY2 = lit ''INVALID_KEY: Your API key is invalid. Please generate a new one.''"

definition RATE_LIMIT2 :: jsstring where
  "RATE_LIMIT2 = lit ''RATE_LIMIT: Too many requests. Wait a moment.''"

definition MODEL_ERROR2 :: jsstring where
  "MODEL_ERROR2 = lit ''MODEL_ERROR: The AI model is currently unavailable in your region.''"

definition GENERIC2 :: jsstring where
  "GENERIC2 = lit ''Analysis failed. Make sure the image is clear and try again.''"

text \<open>
  The \<open>catch\<close> blocks. The argument is \<open>error.message\<close>, \<open>None\<close> when the thrown value
  has none; \<open>error.message || ""\<close> reads it. The result is the message rethrown.
\<close>

definition or_empty :: "jsstring option \<Rightarrow> jsstring" where
  "or_empty m = (case m of None \<Rightarrow> [] | Some t \<Rightarrow> t)"

definition classify1 :: "jsstring option \<Rightarrow> jsstring" where
  "classify1 error_message =
     (let message = or_empty error_message
      in if str_includes message (lit ''401'') \<or> str_includes message (lit ''API_KEY_INVALID'')
            \<or> str_includes message (lit ''not found'')
         then INVALID_KEY1
         else if str_includes message (lit ''403'') then PERMISSION_DENIED1
         else if str_includes message (lit ''429'') then RATE_LIMIT1
         else GENERIC1)"

definition classify2 :: "jsstring option \<Rightarrow> jsstring" where
  "classify2 error_message =
     (let msg = or_empty error_message
      in if str_includes msg (lit ''401'') \<or> str_includes msg (lit ''API_KEY_INVALID'')
         then INVALID_KEY2
         else if str_includes msg (lit ''429'') then RATE_LIMIT2
         else if str_includes msg (lit ''model not found'') \<or> str_includes msg (lit ''404'')
         then MODEL_ERROR2
         else GENERIC2)"

section \<open>JSON values and \<open>JSON.parse\<close>\<close>

text \<open>
  A number is kept as the exact decimal its text denotes: \<open>Decimal neg m e\<close> is
  \<open>m * 10 ^ e\<close>, negated when \<open>neg\<close>. The program never computes with a parsed number;
  it only tests one for being zero, see \<open>num_is_zero\<close>.
\<close>

datatype jsnumber = Decimal bool nat int

datatype json =
    JNull
  | JBool bool
  | JNum jsnumber
  | JStr jsstring
  | JArr "json list"
  | JObj "(jsstring \<times> json) list"

datatype token =
    TLBrace | TRBrace | TLBrack | TRBrack | TColon | TComma
  | TStr jsstring | TNum jsnumber | TTrue | TFalse | TNull

text \<open>
  The number grammar of JSON,
  \<open>-? (0 | [1-9][0-9]*) (. [0-9]+)? ([eE] [+-]? [0-9]+)?\<close>, as an automaton. The
  accumulator holds the sign, the digits of integer and fraction read as one natural
  number, the number of fraction digits, the sign of the exponent and its digits.
\<close>

datatype numstate = NSign | NZero | NInt | NDot | NFrac | NE | NESign | NExp

record numacc =
  neg :: bool
  mant :: nat
  fraclen :: nat
  eneg :: bool
  expo :: nat

definition is_digit :: "jschar \<Rightarrow> bool" where
  "is_digit c = (0x30 \<le> c \<and> c \<le> 0x39)"

definition digit_val :: "jschar \<Rightarrow> nat" where
  "digit_val c = unat c - 0x30"

definition num_start :: "jschar \<Rightarrow> (numstate \<times> numacc) option" where
  "num_start c =
     (let a0 = \<lparr>neg = False, mant = 0, fraclen = 0, eneg = False, expo = 0\<rparr>
      in if c = 0x2D then Some (NSign, a0\<lparr>neg := True\<rparr>)
         else if c = 0x30 then Some (NZero, a0)
         else if is_digit c then Some (NInt, a0\<lparr>mant := digit_val c\<rparr>)
         else None)"

definition is_e :: "jschar \<Rightarrow> bool" where
  "is_e c = (c = 0x65 \<or> c = 0x45)"

fun num_step :: "numstate \<Rightarrow> numacc \<Rightarrow> jschar \<Rightarrow> (numstate \<times> numacc) option" where
  "num_step NSign a c =
     (if c = 0x30 then Some (NZero, a)
      else if is_digit c then Some (NInt, a\<lparr>mant := digit_val c\<rparr>)
      else None)"
| "num_step NZero a c =
     (if c = 0x2E then Some (NDot, a) else if is_e c then Some (NE, a) else None)"
| "num_step NInt a c =
     (if is_digit c then Some (NInt, a\<lparr>mant := 10 * mant a + digit_val c\<rparr>)
      else if c = 0x2E then Some (NDot, a)
      else if is_e c then Some (NE, a)
      else None)"
| "num_step NDot a c =
     (if is_digit c
      then Some (NFrac, a\<lparr>mant := 10 * mant a + digit_val c, fraclen := Suc (fraclen a)\<rparr>)
      else None)"
| "num_step NFrac a c =
     (if is_digit c
      then Some (NFrac, a\<lparr>mant := 10 * mant a + digit_val c, fraclen := Suc (fraclen a)\<rparr>)
      else if is_e c then Some (NE, a)
      else None)"
| "num_step NE a c =
     (if c = 0x2B then Some (NESign, a)
      else if c = 0x2D then Some (NESign, a\<lparr>eneg := True\<rparr>)
      else if is_digit c then Some (NExp, a\<lparr>expo := digit_val c\<rparr>)
      else None)"
| "num_step NESign a c =
     (if is_digit c then Some (NExp, a\<lparr>expo := digit_val c\<rparr>) else None)"
| "num_step NExp a c =
     (if is_digit c then Some (NExp, a\<lparr>expo := 10 * expo a + digit_val c\<rparr>) else None)"

definition num_final :: "numstate \<Rightarrow> bool" where
  "num_final st = (st = NZero \<or> st = NInt \<or> st = NFrac \<or> st = NExp)"

definition num_value :: "numacc \<Rightarrow> jsnumber" where
  "num_value a =
     Decimal (neg a) (mant a)
       ((if eneg a then - int (expo a) else int (expo a)) - int (fraclen a))"

text \<open>
  The lexer reads one code unit at a time. Tokens are collected in reverse. A number or
  a literal name ends at the first code unit that cannot continue it, and that code
  unit is then read again as the start of the next token; two values that meet without
  a separator are rejected by the parser, as the grammar rejects them.
\<close>

datatype lexstate =
    Between
  | InStr jsstring
  | InEsc jsstring
  | InUni jsstring nat jschar
  | InNum numstate numacc
  | InName jsstring

definition is_json_ws :: "jschar \<Rightarrow> bool" where
  "is_json_ws c = (c = 0x20 \<or> c = 0x9 \<or> c = 0xA \<or> c = 0xD)"

definition is_lower :: "jschar \<Rightarrow> bool" where
  "is_lower c = (0x61 \<le> c \<and> c \<le> 0x7A)"

definition hex_val :: "jschar \<Rightarrow> jschar option" where
  "hex_val c =
     (if is_digit c then Some (c - 0x30)
      else if 0x61 \<le> c \<and> c \<le> 0x66 then Some (c - 0x61 + 10)
      else if 0x41 \<le> c \<and> c \<le> 0x46 then Some (c - 0x41 + 10)
      else None)"

definition escape_val :: "jschar \<Rightarrow> jschar option" where
  "escape_val c =
     (if c = 0x22 then Some 0x22
      else if c = 0x5C then Some 0x5C
      else if c = 0x2F then Some 0x2F
      else if c = 0x62 then Some 0x8
      else if c = 0x66 then Some 0xC
      else if c = 0x6E then Some 0xA
      else if c = 0x72 then Some 0xD
      else if c = 0x74 then Some 0x9
      else None)"

definition name_token :: "jsstring \<Rightarrow> token option" where
  "name_token w =
     (if w = lit ''true'' then Some TTrue
      else if w = lit ''false'' then Some TFalse
      else if w = lit ''null'' then Some TNull
      else None)"

definition lex_between :: "token list \<Rightarrow> jschar \<Rightarrow> (lexstate \<times> token list) option" where
  "lex_between ts c =
     (if is_json_ws c then Some (Between, ts)
      else if c = 0x7B then Some (Between, TLBrace # ts)
      else if c = 0x7D then Some (Between, TRBrace # ts)
      else if c = 0x5B then Some (Between, TLBrack # ts)
      else if c = 0x5D then Some (Between, TRBrack # ts)
      else if c = 0x3A then Some (Between, TColon # ts)
      else if c = 0x2C then Some (Between, TComma # ts)
      else if c = 0x22 then Some (InStr [], ts)
      else if is_lower c then Some (InName [c], ts)
      else (case num_start c of
              Some (st, a) \<Rightarrow> Some (InNum st a, ts)
            | None \<Rightarrow> None))"

fun lex_step :: "lexstate \<Rightarrow> token list \<Rightarrow> jschar \<Rightarrow> (lexstate \<times> token list) option" where
  "lex_step Between ts c = lex_between ts c"
| "lex_step (InStr acc) ts c =
     (if c = 0x22 then Some (Between, TStr (rev acc) # ts)
      else if c = 0x5C then Some (InEsc acc, ts)
      else if c < 0x20 then None
      else Some (InStr (c # acc), ts))"
| "lex_step (InEsc acc) ts c =
     (if c = 0x75 then Some (InUni acc 0 0, ts)
      else (case escape_val c of
              Some d \<Rightarrow> Some (InStr (d # acc), ts)
            | None \<Rightarrow> None))"
| "lex_step (InUni acc n v) ts c =
     (case hex_val c of
        None \<Rightarrow> None
      | Some d \<Rightarrow>
          if n = 3 then Some (InStr ((16 * v + d) # acc), ts)
          else Some (InUni acc (Suc n) (16 * v + d), ts))"
| "lex_step (InNum st a) ts c =
     (case num_step st a c of
        Some (st', a') \<Rightarrow> Some (InNum st' a', ts)
      | None \<Rightarrow> if num_final st then lex_between (TNum (num_value a) # ts) c else None)"
| "lex_step (InName w) ts c =
     (if is_lower c then Some (InName (c # w), ts)
      else (case name_token (rev w) of
              Some t \<Rightarrow> lex_between (t # ts) c
            | None \<Rightarrow> None))"

fun lex_run :: "lexstate \<Rightarrow> token list \<Rightarrow> jsstring \<Rightarrow> (lexstate \<times> token list) option" where
  "lex_run st ts [] = Some (st, ts)"
| "lex_run st ts (c # cs) =
     (case lex_step st ts c of
        None \<Rightarrow> None
      | Some (st', ts') \<Rightarrow> lex_run st' ts' cs)"

fun lex_finish :: "lexstate \<Rightarrow> token list \<Rightarrow> token list option" where
  "lex_finish Between ts = Some ts"
| "lex_finish (InNum st a) ts = (if num_final st then Some (TNum (num_value a) # ts) else None)"
| "lex_finish (InName w) ts = map_option (\<lambda>t. t # ts) (name_token (rev w))"
| "lex_finish _ ts = None"

definition tokenize :: "jsstring \<Rightarrow> token list option" where
  "tokenize s =
     (case lex_run Between [] s of
        None \<Rightarrow> None
      | Some (st, ts) \<Rightarrow> map_option rev (lex_finish st ts))"

text \<open>
  The parser reads the tokens with a stack of the arrays and objects that are still
  open; elements and members are collected in reverse. \<open>WantValue\<close> stands after a colon,
  after a comma in an array and at the start; \<open>FirstElem\<close> and \<open>FirstKey\<close> stand right
  after an opening bracket, where the closing one is allowed too.
\<close>

datatype frame =
    FArr "json list"
  | FObj "(jsstring \<times> json) list"
  | FKey "(jsstring \<times> json) list" jsstring

datatype mode =
    WantValue | FirstElem | FirstKey | WantKey | WantColon | ArrNext | ObjNext | Done json

text \<open>A finished value goes into the innermost open array or object.\<close>

fun complete :: "json \<Rightarrow> frame list \<Rightarrow> (mode \<times> frame list) option" where
  "complete v [] = Some (Done v, [])"
| "complete v (FArr xs # st) = Some (ArrNext, FArr (v # xs) # st)"
| "complete v (FKey ms k # st) = Some (ObjNext, FObj ((k, v) # ms) # st)"
| "complete v (FObj ms # st) = None"

fun scalar :: "token \<Rightarrow> json option" where
  "scalar (TStr s) = Some (JStr s)"
| "scalar (TNum n) = Some (JNum n)"
| "scalar TTrue = Some (JBool True)"
| "scalar TFalse = Some (JBool False)"
| "scalar TNull = Some JNull"
| "scalar _ = None"

definition parse_value :: "token \<Rightarrow> frame list \<Rightarrow> (mode \<times> frame list) option" where
  "parse_value t st =
     (case scalar t of
        Some v \<Rightarrow> complete v st
      | None \<Rightarrow>
          if t = TLBrack then Some (FirstElem, FArr [] # st)
          else if t = TLBrace then Some (FirstKey, FObj [] # st)
          else None)"

fun close_array :: "frame list \<Rightarrow> (mode \<times> frame list) option" where
  "close_array (FArr xs # st) = complete (JArr (rev xs)) st"
| "close_array _ = None"

fun close_object :: "frame list \<Rightarrow> (mode \<times> frame list) option" where
  "close_object (FObj ms # st) = complete (JObj (rev ms)) st"
| "close_object _ = None"

fun open_key :: "jsstring \<Rightarrow> frame list \<Rightarrow> (mode \<times> frame list) option" where
  "open_key k (FObj ms # st) = Some (WantColon, FKey ms k # st)"
| "open_key k _ = None"

fun parse_step :: "mode \<Rightarrow> frame list \<Rightarrow> token \<Rightarrow> (mode \<times> frame list) option" where
  "parse_step WantValue st t = parse_value t st"
| "parse_step FirstElem st t = (if t = TRBrack then close_array st else parse_value t st)"
| "parse_step FirstKey st t =
     (case t of TStr k \<Rightarrow> open_key k st | TRBrace \<Rightarrow> close_object st | _ \<Rightarrow> None)"
| "parse_step WantKey st t = (case t of TStr k \<Rightarrow> open_key k st | _ \<Rightarrow> None)"
| "parse_step WantColon st t = (if t = TColon then Some (WantValue, st) else None)"
| "parse_step ArrNext st t =
     (if t = TComma then Some (WantValue, st)
      else if t = TRBrack then close_array st
      else None)"
| "parse_step ObjNext st t =
     (if t = TComma then Some (WantKey, st)
      else if t = TRBrace then close_object st
      else None)"
| "parse_step (Done v) st t = None"

fun parse_run :: "mode \<Rightarrow> frame list \<Rightarrow> token list \<Rightarrow> (mode \<times> frame list) option" where
  "parse_run m st [] = Some (m, st)"
| "parse_run m st (t # ts) =
     (case parse_step m st t of
        None \<Rightarrow> None
      | Some (m', st') \<Rightarrow> parse_run m' st' ts)"

text \<open>\<open>JSON.parse(text)\<close>; \<open>None\<close> is the SyntaxError it throws.\<close>

definition JSON_parse :: "jsstring \<Rightarrow> json option" where
  "JSON_parse text =
     (case tokenize text of
        None \<Rightarrow> None
      | Some ts \<Rightarrow>
          (case parse_run WantValue [] ts of
             Some (Done v, []) \<Rightarrow> Some v
           | _ \<Rightarrow> None))"

section \<open>Reading JavaScript values\<close>

text \<open>
  A parsed number is the IEEE double nearest to the decimal, so it is zero when the
  decimal is zero or lies at most half the smallest subnormal, \<open>2 ^ -1075\<close>, away from
  zero (the tie goes to the even neighbour, zero).
\<close>

fun num_is_zero :: "jsnumber \<Rightarrow> bool" where
  "num_is_zero (Decimal s m e) = (m = 0 \<or> (e < 0 \<and> m * 2 ^ 1075 \<le> 10 ^ nat (- e)))"

text \<open>Truthiness, as \<open>!x\<close>, \<open>x || y\<close> and \<open>x && y\<close> test it; \<open>None\<close> is \<open>undefined\<close>.\<close>

fun truthy :: "json option \<Rightarrow> bool" where
  "truthy None = False"
| "truthy (Some JNull) = False"
| "truthy (Some (JBool b)) = b"
| "truthy (Some (JNum n)) = (\<not> num_is_zero n)"
| "truthy (Some (JStr s)) = (s \<noteq> [])"
| "truthy (Some (JArr xs)) = True"
| "truthy (Some (JObj ms)) = True"

text \<open>
  \<open>v.name\<close> on a value other than \<open>null\<close> and \<open>undefined\<close>, for the two names the
  program reads, \<open>numbers\<close> and \<open>length\<close>: no prototype defines them, arrays and strings
  have their own \<open>length\<close>, and a key that occurs twice in the JSON text has the value of
  its last occurrence.
\<close>

fun property :: "json \<Rightarrow> jsstring \<Rightarrow> json option" where
  "property (JObj ms) k = map_of (rev ms) k"
| "property (JArr xs) k =
     (if k = lit ''length'' then Some (JNum (Decimal False (length xs) 0)) else None)"
| "property (JStr s) k =
     (if k = lit ''length'' then Some (JNum (Decimal False (length s) 0)) else None)"
| "property _ k = None"

text \<open>
  What the engine puts into the messages of the errors it throws itself is not fixed by
  the language: the SyntaxError of \<open>JSON.parse\<close> for a text, and the TypeError of
  reading a property of \<open>null\<close> or \<open>undefined\<close>.
\<close>

record engine =
  syntaxErrorMessage :: "jsstring \<Rightarrow> jsstring"
  typeErrorMessage :: "json option \<Rightarrow> jsstring \<Rightarrow> jsstring"

text \<open>\<open>base.name\<close>; \<open>Inl\<close> is the message of the TypeError thrown.\<close>

fun get :: "engine \<Rightarrow> json option \<Rightarrow> jsstring \<Rightarrow> jsstring + json option" where
  "get eng None k = Inl (typeErrorMessage eng None k)"
| "get eng (Some JNull) k = Inl (typeErrorMessage eng (Some JNull) k)"
| "get eng (Some v) k = Inr (property v k)"

section \<open>The request adapter: \<open>extractNumbersFromImage\<close>\<close>

datatype schema =
    STRING
  | ARRAY schema
  | OBJECT "(string \<times> schema) list" "string list"

definition responseSchema :: schema where
  "responseSchema =
     OBJECT [(''numbers'',
              ARRAY (OBJECT [(''number'', STRING), (''country'', STRING)]
                            [''number'', ''country'']))]
            [''numbers'']"

record request =
  req_apiKey :: jsstring
  req_model :: jsstring
  req_mimeType :: jsstring
  req_data :: jsstring
  req_text :: jsstring
  req_responseMimeType :: jsstring
  req_thinkingBudget :: "nat option"
  req_responseSchema :: schema

text \<open>
  What \<open>await ai.models.generateContent(...)\<close> does: it throws an error with the given
  \<open>message\<close>, or it returns a response with the given \<open>text\<close> (\<open>None\<close> is \<open>undefined\<close>).
\<close>

datatype provider_result =
    Rejected "jsstring option"
  | Resolved "jsstring option"

definition PROMPT1 :: jsstring where
  "PROMPT1 = lit ''Identify and extract all phone numbers from the provided image. For each number, determine the country based on its formatting and international calling code. Output the results strictly in JSON format as follows: { \"numbers\": [ { \"number\": \"string\", \"country\": \"string\" } ] }''"

definition PROMPT2 :: jsstring where
  "PROMPT2 = lit ''Extract all phone numbers from the image and identify their country. Output JSON: { \"numbers\": [ { \"number\": \"string\", \"country\": \"string\" } ] }''"

definition DEFAULT_TEXT :: jsstring where
  "DEFAULT_TEXT = lit ''{\"numbers\":[]}''"

text \<open>\<open>response.text || '{"numbers":[]}'\<close>\<close>

definition textOutput :: "jsstring option \<Rightarrow> jsstring" where
  "textOutput response_text =
     (case response_text of
        None \<Rightarrow> DEFAULT_TEXT
      | Some t \<Rightarrow> if t = [] then DEFAULT_TEXT else t)"

text \<open>The object literal \<open>{ numbers: [], summary: "" }\<close>.\<close>

definition EMPTY_RESPONSE :: json where
  "EMPTY_RESPONSE = JObj [(lit ''numbers'', JArr []), (lit ''summary'', JStr [])]"

text \<open>
  The adapter takes the environment's \<open>process.env.API_KEY\<close> (\<open>None\<close> when it is
  undefined) and the provider, and returns its outcome, \<open>Inl\<close> the message of the error
  thrown and \<open>Inr\<close> the value returned, together with the requests it has sent.
\<close>

definition try1 :: "engine \<Rightarrow> provider_result \<Rightarrow> jsstring + json" where
  "try1 eng r =
     (case r of
        Rejected m \<Rightarrow> Inl (classify1 m)
      | Resolved response_text \<Rightarrow>
          (let src = trim (textOutput response_text)
           in case JSON_parse src of
                None \<Rightarrow> Inl (classify1 (Some (syntaxErrorMessage eng src)))
              | Some parsed \<Rightarrow>
                  (case get eng (Some parsed) (lit ''numbers'') of
                     Inl m \<Rightarrow> Inl (classify1 (Some m))
                   | Inr numbers \<Rightarrow>
                       if \<not> truthy numbers then Inr EMPTY_RESPONSE else Inr parsed)))"

definition extractNumbersFromImage1 ::
  "engine \<Rightarrow> jsstring option \<Rightarrow> (request \<Rightarrow> provider_result) \<Rightarrow> jsstring
     \<Rightarrow> (jsstring + json) \<times> request list" where
  "extractNumbersFromImage1 eng API_KEY generateContent base64Image =
     (case API_KEY of
        None \<Rightarrow> (Inl SETUP_REQUIRED1, [])
      | Some apiKey \<Rightarrow>
          if apiKey = [] \<or> apiKey = lit ''undefined'' \<or> trim apiKey = []
          then (Inl SETUP_REQUIRED1, [])
          else
            (let req = \<lparr>req_apiKey = apiKey,
                        req_model = lit ''gemini-3-flash-preview'',
                        req_mimeType = mimeType base64Image,
                        req_data = base64Data base64Image,
                        req_text = PROMPT1,
                        req_responseMimeType = lit ''application/json'',
                        req_thinkingBudget = Some 0,
                        req_responseSchema = responseSchema\<rparr>
             in (try1 eng (generateContent req), [req])))"

definition try2 :: "engine \<Rightarrow> provider_result \<Rightarrow> jsstring + json" where
  "try2 eng r =
     (case r of
        Rejected m \<Rightarrow> Inl (classify2 m)
      | Resolved response_text \<Rightarrow>
          (let src = trim (textOutput response_text)
           in case JSON_parse src of
                None \<Rightarrow> Inl (classify2 (Some (syntaxErrorMessage eng src)))
              | Some parsed \<Rightarrow> Inr parsed))"

definition extractNumbersFromImage2 ::
  "engine \<Rightarrow> jsstring option \<Rightarrow> (request \<Rightarrow> provider_result) \<Rightarrow> jsstring
     \<Rightarrow> (jsstring + json) \<times> request list" where
  "extractNumbersFromImage2 eng API_KEY generateContent base64Image =
     (case API_KEY of
        None \<Rightarrow> (Inl SETUP_REQUIRED2, [])
      | Some apiKey \<Rightarrow>
          if apiKey = [] \<or> apiKey = lit ''undefined'' \<or> trim apiKey = []
          then (Inl SETUP_REQUIRED2, [])
          else
            (let req = \<lparr>req_apiKey = apiKey,
                        req_model = lit ''gemini-3-flash-preview'',
                        req_mimeType = mimeType base64Image,
                        req_data = base64Data base64Image,
                        req_text = PROMPT2,
                        req_responseMimeType = lit ''application/json'',
                        req_thinkingBudget = None,
                        req_responseSchema = responseSchema\<rparr>
             in (try2 eng (generateContent req), [req])))"

section \<open>The interaction controller: the first \<open>App\<close> component\<close>

datatype AppStatus = Idle | Loading | Success | Error

text \<open>
  \<open>App.tsx\<close> holds two copies of the component; this is the first (lines 6 to 303).
  Its five state variables; \<open>JNull\<close> and \<open>None\<close> are \<open>null\<close>.
\<close>

record view =
  status :: AppStatus
  results :: json
  error :: "jsstring option"
  copiedIndex :: "nat option"
  previewUrl :: "jsstring option"

text \<open>
  The page adds what lives outside the component: the images of the calls of
  \<open>extractNumbersFromImage\<close> that have not answered yet, in the order they were made;
  for every callback scheduled by \<open>setTimeout\<close> the milliseconds left until it runs (all
  callbacks of the program are \<open>setCopiedIndex(null)\<close>); and the value last written to
  the system clipboard.
\<close>

record page = view +
  pending :: "jsstring list"
  timers :: "nat list"
  clipboardText :: "json option"

definition initial :: page where
  "initial = \<lparr>status = Idle, results = JNull, error = None, copiedIndex = None,
              previewUrl = None, pending = [], timers = [], clipboardText = None\<rparr>"

definition NO_NUMBERS :: jsstring where
  "NO_NUMBERS = lit ''No numbers detected. Please try a clearer shot.''"

definition NO_IMAGE :: jsstring where
  "NO_IMAGE = lit ''Clipboard doesn't have an image. Copy an image first!''"

definition ACCESS_DENIED :: jsstring where
  "ACCESS_DENIED = lit ''Clipboard access denied. Please use Ctrl+V or click 'Choose File'.''"

text \<open>
  \<open>processImage\<close> up to its \<open>await\<close>: the four setters run and the call is made.
\<close>

definition processImage_begin :: "jsstring \<Rightarrow> page \<Rightarrow> page" where
  "processImage_begin base64 s =
     s\<lparr>previewUrl := Some base64, status := Loading, error := None, results := JNull,
       pending := pending s @ [base64]\<rparr>"

text \<open>The \<open>catch\<close> block of \<open>processImage\<close>.\<close>

definition processImage_catch :: "jsstring \<Rightarrow> page \<Rightarrow> page" where
  "processImage_catch message s = s\<lparr>error := Some message, status := Error\<rparr>"

text \<open>\<open>x === 0\<close>\<close>

fun is_number_zero :: "json option \<Rightarrow> bool" where
  "is_number_zero (Some (JNum n)) = num_is_zero n"
| "is_number_zero _ = False"

text \<open>
  \<open>processImage\<close> from its \<open>await\<close> on, with the outcome of the adapter: \<open>Inl\<close> the
  message of the error it threw, \<open>Inr\<close> the value it returned. Reading
  \<open>data.numbers.length\<close> can throw inside the \<open>try\<close>, after the first two setters.
\<close>

definition processImage_end :: "engine \<Rightarrow> jsstring + json \<Rightarrow> page \<Rightarrow> page" where
  "processImage_end eng outcome s =
     (case outcome of
        Inl message \<Rightarrow> processImage_catch message s
      | Inr data \<Rightarrow>
          (let s1 = s\<lparr>results := data, status := Success\<rparr>
           in case get eng (Some data) (lit ''numbers'') of
                Inl message \<Rightarrow> processImage_catch message s1
              | Inr numbers \<Rightarrow>
                  (case get eng numbers (lit ''length'') of
                     Inl message \<Rightarrow> processImage_catch message s1
                   | Inr len \<Rightarrow>
                       if is_number_zero len then s1\<lparr>error := Some NO_NUMBERS\<rparr> else s1)))"

text \<open>
  One whole attempt with nothing in between: the call is made, answers and is taken
  off the list of pending calls.
\<close>

definition processImage ::
  "engine \<Rightarrow> (jsstring \<Rightarrow> (jsstring + json) \<times> request list) \<Rightarrow> jsstring \<Rightarrow> page \<Rightarrow> page" where
  "processImage eng extract base64 s =
     (let s1 = processImage_begin base64 s
      in processImage_end eng (fst (extract base64)) (s1\<lparr>pending := butlast (pending s1)\<rparr>))"

text \<open>
  A capture handler runs to its end before the next event: the clipboard has answered
  and the \<open>FileReader\<close> has read the file or blob into its data URL, which the handler
  gets.

  \<open>handleFileChange\<close>: the file chosen in the picker, if any.
\<close>

definition handleFileChange :: "jsstring option \<Rightarrow> page \<Rightarrow> page" where
  "handleFileChange file s =
     (case file of
        None \<Rightarrow> s
      | Some base64 \<Rightarrow> processImage_begin base64 s)"

text \<open>\<open>openFileSelector\<close>: whether the picker opens.\<close>

definition openFileSelector :: "page \<Rightarrow> bool" where
  "openFileSelector s = (status s \<noteq> Loading)"

text \<open>
  \<open>handleClipboardAction\<close>. \<open>navigator.clipboard.read()\<close> is refused or gives items; an
  item has its list of types and, for its first type that starts with \<open>image/\<close>, the
  data URL of the blob, \<open>None\<close> when \<open>getType\<close> fails.
\<close>

datatype clipboard_read =
    Refused
  | Items "(jsstring list \<times> jsstring option) list"

fun first_image_item ::
  "(jsstring list \<times> jsstring option) list \<Rightarrow> (jsstring option) option" where
  "first_image_item [] = None"
| "first_image_item ((types, blob) # items) =
     (if list_ex (prefix (lit ''image/'')) types then Some blob
      else first_image_item items)"

definition handleClipboardAction :: "clipboard_read \<Rightarrow> page \<Rightarrow> page" where
  "handleClipboardAction r s =
     (if status s = Loading then s
      else
        (let s1 = s\<lparr>error := None\<rparr>
         in case r of
              Refused \<Rightarrow> s1\<lparr>error := Some ACCESS_DENIED\<rparr>
            | Items items \<Rightarrow>
                (case first_image_item items of
                   None \<Rightarrow> s1\<lparr>error := Some NO_IMAGE\<rparr>
                 | Some None \<Rightarrow> s1\<lparr>error := Some ACCESS_DENIED\<rparr>
                 | Some (Some base64) \<Rightarrow> processImage_begin base64 s1)))"

text \<open>
  \<open>handlePaste\<close>. The items of the paste event, \<open>None\<close> when there is no
  \<open>clipboardData\<close>; an item has its type and the data URL of \<open>getAsFile()\<close>, \<open>None\<close> when
  that is \<open>null\<close>.
\<close>

fun first_pasted_image :: "(jsstring \<times> jsstring option) list \<Rightarrow> jsstring option" where
  "first_pasted_image [] = None"
| "first_pasted_image ((type, blob) # items) =
     (if str_includes type (lit ''image'') then
        (case blob of
           Some base64 \<Rightarrow> Some base64
         | None \<Rightarrow> first_pasted_image items)
      else first_pasted_image items)"

definition handlePaste :: "(jsstring \<times> jsstring option) list option \<Rightarrow> page \<Rightarrow> page" where
  "handlePaste clipboardData s =
     (case clipboardData of
        None \<Rightarrow> s
      | Some items \<Rightarrow>
          (case first_pasted_image items of
             None \<Rightarrow> s
           | Some base64 \<Rightarrow> processImage_begin base64 s))"

text \<open>\<open>copyToClipboard\<close>, the same in both copies of the component.\<close>

definition copyToClipboard :: "json \<Rightarrow> nat \<Rightarrow> page \<Rightarrow> page" where
  "copyToClipboard text index s =
     s\<lparr>clipboardText := Some text, copiedIndex := Some index, timers := timers s @ [1000]\<rparr>"

text \<open>
  Time passes by \<open>d\<close> milliseconds with no other event: the callbacks that are due run.
\<close>

definition advance :: "nat \<Rightarrow> page \<Rightarrow> page" where
  "advance d s =
     s\<lparr>copiedIndex := (if list_ex (\<lambda>t. t \<le> d) (timers s) then None else copiedIndex s),
       timers := map (\<lambda>t. t - d) (filter (\<lambda>t. d < t) (timers s))\<rparr>"

definition resetApp :: "page \<Rightarrow> page" where
  "resetApp s = s\<lparr>results := JNull, previewUrl := None, error := None, status := Idle\<rparr>"

definition isSetupError :: "page \<Rightarrow> bool" where
  "isSetupError s =
     (case error s of
        None \<Rightarrow> False
      | Some e \<Rightarrow> str_includes e (lit ''SETUP_REQUIRED'') \<or> str_includes e (lit ''INVALID_KEY''))"

definition hasResults :: "page \<Rightarrow> bool" where
  "hasResults s = (truthy (Some (results s)) \<and> status s = Success)"

text \<open>What the component renders: the buttons that can be clicked.\<close>

definition shows_choose_file :: "page \<Rightarrow> bool" where
  "shows_choose_file s = (\<not> hasResults s \<and> status s \<noteq> Loading)"

definition shows_reset :: "page \<Rightarrow> bool" where
  "shows_reset s =
     (hasResults s
      \<or> (case error s of None \<Rightarrow> False | Some e \<Rightarrow> e \<noteq> []) \<and> \<not> isSetupError s)"

definition shows_copy :: "page \<Rightarrow> nat \<Rightarrow> bool" where
  "shows_copy s idx =
     (hasResults s \<and>
      (case property (results s) (lit ''numbers'') of
         Some (JArr items) \<Rightarrow> idx < length items
       | _ \<Rightarrow> False))"

text \<open>The marker of a result: \<open>copiedIndex === idx\<close>.\<close>

definition copied :: "page \<Rightarrow> nat \<Rightarrow> bool" where
  "copied s idx = (copiedIndex s = Some idx)"

text \<open>
  The events of the page. A click counts only on a button that is rendered. An answer
  names the pending call it belongs to by its position.
\<close>

datatype event =
    BoxClick clipboard_read
  | ChooseFile "jsstring option"
  | Paste "(jsstring \<times> jsstring option) list option"
  | ResetClick
  | CopyClick json nat
  | Answer nat "jsstring + json"
  | Wait nat

definition remove_nth :: "nat \<Rightarrow> 'a list \<Rightarrow> 'a list" where
  "remove_nth i xs = take i xs @ drop (Suc i) xs"

fun step :: "engine \<Rightarrow> page \<Rightarrow> event \<Rightarrow> page" where
  "step eng s (BoxClick r) = handleClipboardAction r s"
| "step eng s (ChooseFile file) =
     (if shows_choose_file s \<and> openFileSelector s then handleFileChange file s else s)"
| "step eng s (Paste clipboardData) = handlePaste clipboardData s"
| "step eng s ResetClick = (if shows_reset s then resetApp s else s)"
| "step eng s (CopyClick text idx) =
     (if shows_copy s idx then copyToClipboard text idx s else s)"
| "step eng s (Answer i outcome) =
     (if i < length (pending s)
      then processImage_end eng outcome (s\<lparr>pending := remove_nth i (pending s)\<rparr>)
      else s)"
| "step eng s (Wait d) = advance d s"

definition run :: "engine \<Rightarrow> page \<Rightarrow> event list \<Rightarrow> page" where
  "run eng s evs = foldl (step eng) s evs"

section \<open>The declared types and \<open>JSON.stringify\<close>\<close>

text \<open>The two interfaces of \<open>types.ts\<close>.\<close>

record ExtractedNumber =
  number :: jsstring
  country :: jsstring

record ExtractionResponse =
  numbers :: "ExtractedNumber list"
  summary :: jsstring

text \<open>
  The JavaScript objects of these types, with their properties in the order of the
  declaration.
\<close>

definition number_json :: "ExtractedNumber \<Rightarrow> json" where
  "number_json e = JObj [(lit ''number'', JStr (number e)), (lit ''country'', JStr (country e))]"

definition response_json :: "ExtractionResponse \<Rightarrow> json" where
  "response_json r =
     JObj [(lit ''numbers'', JArr (map number_json (numbers r))),
           (lit ''summary'', JStr (summary r))]"

text \<open>
  A JSON value seen at the declared type: it must be an object that has the declared
  properties, of the declared types.
\<close>

fun as_ExtractedNumber :: "json \<Rightarrow> ExtractedNumber option" where
  "as_ExtractedNumber (JObj ms) =
     (case (map_of (rev ms) (lit ''number''), map_of (rev ms) (lit ''country'')) of
        (Some (JStr n), Some (JStr c)) \<Rightarrow> Some \<lparr>number = n, country = c\<rparr>
      | _ \<Rightarrow> None)"
| "as_ExtractedNumber _ = None"

fun all_some :: "'a option list \<Rightarrow> 'a list option" where
  "all_some [] = Some []"
| "all_some (x # xs) =
     (case x of
        None \<Rightarrow> None
      | Some y \<Rightarrow> map_option ((#) y) (all_some xs))"

fun as_ExtractionResponse :: "json \<Rightarrow> ExtractionResponse option" where
  "as_ExtractionResponse (JObj ms) =
     (case (map_of (rev ms) (lit ''numbers''), map_of (rev ms) (lit ''summary'')) of
        (Some (JArr items), Some (JStr s)) \<Rightarrow>
          map_option (\<lambda>es. \<lparr>numbers = es, summary = s\<rparr>) (all_some (map as_ExtractedNumber items))
      | _ \<Rightarrow> None)"
| "as_ExtractionResponse _ = None"

text \<open>
  \<open>JSON.stringify\<close> on an object of the declared type. A string is quoted as
  QuoteJSONString of ECMA-262 does it: the short escapes for backspace, tab, line
  feed, form feed, carriage return, the double quote and the backslash; a backslash, the
  letter u and four hexadecimal digits in lower case for the other code units below
  U+0020 and for a surrogate that has no partner; and every other code unit as it is.
\<close>

definition hex_digit :: "nat \<Rightarrow> jschar" where
  "hex_digit n = (if n < 10 then of_nat (0x30 + n) else of_nat (0x61 + (n - 10)))"

definition unicode_escape :: "jschar \<Rightarrow> jsstring" where
  "unicode_escape c =
     [0x5C, 0x75, hex_digit (unat c div 4096 mod 16), hex_digit (unat c div 256 mod 16),
      hex_digit (unat c div 16 mod 16), hex_digit (unat c mod 16)]"

definition short_escape :: "jschar \<Rightarrow> jschar option" where
  "short_escape c =
     (if c = 0x8 then Some 0x62
      else if c = 0x9 then Some 0x74
      else if c = 0xA then Some 0x6E
      else if c = 0xC then Some 0x66
      else if c = 0xD then Some 0x72
      else if c = 0x22 then Some 0x22
      else if c = 0x5C then Some 0x5C
      else None)"

definition quote_unit :: "jschar \<Rightarrow> jsstring" where
  "quote_unit c =
     (case short_escape c of
        Some e \<Rightarrow> [0x5C, e]
      | None \<Rightarrow> if c < 0x20 then unicode_escape c else [c])"

definition is_leading_surrogate :: "jschar \<Rightarrow> bool" where
  "is_leading_surrogate c = (0xD800 \<le> c \<and> c \<le> 0xDBFF)"

definition is_trailing_surrogate :: "jschar \<Rightarrow> bool" where
  "is_trailing_surrogate c = (0xDC00 \<le> c \<and> c \<le> 0xDFFF)"

fun quote_units :: "jsstring \<Rightarrow> jsstring" where
  "quote_units [] = []"
| "quote_units [c] =
     (if is_leading_surrogate c \<or> is_trailing_surrogate c then unicode_escape c
      else quote_unit c)"
| "quote_units (c # d # cs) =
     (if is_leading_surrogate c then
        (if is_trailing_surrogate d then c # d # quote_units cs
         else unicode_escape c @ quote_units (d # cs))
      else if is_trailing_surrogate c then unicode_escape c @ quote_units (d # cs)
      else quote_unit c @ quote_units (d # cs))"

definition quote :: "jsstring \<Rightarrow> jsstring" where
  "quote s = 0x22 # quote_units s @ [0x22]"

text \<open>Objects are written with their properties in order and no white space.\<close>

definition stringify_number :: "ExtractedNumber \<Rightarrow> jsstring" where
  "stringify_number e =
     lit ''{\"number\":'' @ quote (number e) @ lit '',\"country\":'' @ quote (country e) @ lit ''}''"

fun join_comma :: "jsstring list \<Rightarrow> jsstring" where
  "join_comma [] = []"
| "join_comma [x] = x"
| "join_comma (x # y # ys) = x @ comma # join_comma (y # ys)"

definition JSON_stringify :: "ExtractionResponse \<Rightarrow> jsstring" where
  "JSON_stringify r =
     lit ''{\"numbers\":['' @ join_comma (map stringify_number (numbers r))
       @ lit ''],\"summary\":'' @ quote (summary r) @ lit ''}''"

section \<open>Values for the examples\<close>

definition sample_engine :: engine where
  "sample_engine =
     \<lparr>syntaxErrorMessage = (\<lambda>src. lit ''Unexpected end of JSON input''),
      typeErrorMessage = (\<lambda>base name. lit ''Cannot read properties of null'')\<rparr>"

definition EXAMPLE_KEY :: jsstring where
  "EXAMPLE_KEY = lit ''AIzaSyExample''"

definition IMG_A :: jsstring where
  "IMG_A = lit ''data:image/png;base64,iVBORw0KGgo=''"

definition IMG_B :: jsstring where
  "IMG_B = lit ''data:image/jpeg;base64,/9j/4AAQ''"

definition ONE_NUMBER :: json where
  "ONE_NUMBER =
     JObj [(lit ''numbers'',
            JArr [JObj [(lit ''number'', JStr (lit ''+1 555-0100'')),
                        (lit ''country'', JStr (lit ''USA''))]])]"

definition TWO_NUMBERS :: json where
  "TWO_NUMBERS =
     JObj [(lit ''numbers'',
            JArr [JObj [(lit ''number'', JStr (lit ''+1 555-0100'')),
                        (lit ''country'', JStr (lit ''USA''))],
                  JObj [(lit ''number'', JStr (lit ''+44 20 7946 0958'')),
                        (lit ''country'', JStr (lit ''UK''))]])]"

definition TWO_ENTRIES :: ExtractionResponse where
  "TWO_ENTRIES =
     \<lparr>numbers = [\<lparr>number = lit ''+1 555-0100'', country = lit ''USA''\<rparr>,
                 \<lparr>number = lit ''+44 20 7946 0958'', country = lit ''UK''\<rparr>],
      summary = []\<rparr>"

section \<open>The tokens of a serialized response\<close>

text \<open>The token lists that the lexer finds in the output of \<open>JSON_stringify\<close>.\<close>

definition number_tokens :: "ExtractedNumber \<Rightarrow> token list" where
  "number_tokens e =
     [TLBrace, TStr (lit ''number''), TColon, TStr (number e), TComma,
      TStr (lit ''country''), TColon, TStr (country e), TRBrace]"

definition more_tokens :: "ExtractedNumber list \<Rightarrow> token list" where
  "more_tokens es = concat (map (\<lambda>e. TComma # number_tokens e) es)"

definition response_tokens :: "ExtractionResponse \<Rightarrow> token list" where
  "response_tokens r =
     [TLBrace, TStr (lit ''numbers''), TColon, TLBrack]
       @ (case numbers r of [] \<Rightarrow> [] | e # es \<Rightarrow> number_tokens e @ more_tokens es)
       @ [TRBrack, TComma, TStr (lit ''summary''), TColon, TStr (summary r), TRBrace]"

section \<open>The image header\<close>

lemma length_lit [simp]: "length (lit s) = length s"
  by (simp add: lit_def)

lemma takeWhile_stops:
  assumes "length (takeWhile P r) < length r"
  shows "\<exists>rest. r = takeWhile P r @ hd (dropWhile P r) # rest \<and> \<not> P (hd (dropWhile P r))"
proof -
  have ne: "dropWhile P r \<noteq> []"
    using assms by (metis append_Nil2 less_irrefl takeWhile_dropWhile_id)
  then obtain x rest where d: "dropWhile P r = x # rest"
    by (cases "dropWhile P r") auto
  have "r = takeWhile P r @ dropWhile P r" by simp
  with d have "r = takeWhile P r @ x # rest" by simp
  moreover have "\<not> P x" using d hd_dropWhile [OF ne] by simp
  ultimately show ?thesis using d by auto
qed

lemma match_here_Some:
  "match_here s = Some g \<longleftrightarrow>
     (\<exists>rest. s = lit ''data:'' @ g @ semicolon # rest \<and> g \<noteq> [] \<and> semicolon \<notin> set g)"
proof
  assume m: "match_here s = Some g"
  then have p: "prefix (lit ''data:'') s"
    by (auto simp: match_here_def split: if_splits)
  then obtain r where s: "s = lit ''data:'' @ r" by (auto simp: prefix_def)
  then have dr: "drop 5 s = r" by simp
  from m p dr have g: "g = takeWhile (\<lambda>c. c \<noteq> semicolon) r" and gne: "g \<noteq> []"
    and len: "length (takeWhile (\<lambda>c. c \<noteq> semicolon) r) < length r"
    by (auto simp: match_here_def Let_def split: if_splits)
  from takeWhile_stops [OF len] obtain rest where
    r: "r = g @ hd (dropWhile (\<lambda>c. c \<noteq> semicolon) r) # rest"
    and h: "hd (dropWhile (\<lambda>c. c \<noteq> semicolon) r) = semicolon"
    using g by auto
  have "semicolon \<notin> set g" unfolding g by (auto dest: set_takeWhileD)
  with s r h gne show "\<exists>rest. s = lit ''data:'' @ g @ semicolon # rest \<and> g \<noteq> [] \<and> semicolon \<notin> set g"
    by metis
next
  assume "\<exists>rest. s = lit ''data:'' @ g @ semicolon # rest \<and> g \<noteq> [] \<and> semicolon \<notin> set g"
  then obtain rest where s: "s = lit ''data:'' @ g @ semicolon # rest" and gne: "g \<noteq> []"
    and ns: "semicolon \<notin> set g" by blast
  have tw: "takeWhile (\<lambda>c. c \<noteq> semicolon) (g @ semicolon # rest) = g"
    using ns by (auto simp: takeWhile_tail)
  have "drop 5 s = g @ semicolon # rest" using s by simp
  then show "match_here s = Some g"
    using s gne tw by (simp add: match_here_def Let_def)
qed

lemma match_group1_leftmost:
  "\<lbrakk>s = pre @ lit ''data:'' @ g @ semicolon # rest; g \<noteq> []; semicolon \<notin> set g;
    \<forall>p' g' r'. length p' < length pre \<longrightarrow> g' \<noteq> [] \<longrightarrow> semicolon \<notin> set g'
       \<longrightarrow> s \<noteq> p' @ lit ''data:'' @ g' @ semicolon # r'\<rbrakk>
   \<Longrightarrow> match_group1 s = Some g"
proof (induction pre arbitrary: s)
  case Nil
  then have "match_here s = Some g" by (simp add: match_here_Some)
  then show ?case by (cases s) auto
next
  case (Cons c pre)
  let ?s' = "pre @ lit ''data:'' @ g @ semicolon # rest"
  have s: "s = c # ?s'" using Cons.prems(1) by simp
  have "match_here s = None"
  proof (cases "match_here s")
    case (Some g')
    then obtain r' where "s = [] @ lit ''data:'' @ g' @ semicolon # r'" "g' \<noteq> []" "semicolon \<notin> set g'"
      by (auto simp: match_here_Some)
    with Cons.prems(4) show ?thesis by (metis length_greater_0_conv list.discI list.size(3))
  qed simp
  then have step: "match_group1 s = match_group1 ?s'" using s by simp
  have "match_group1 ?s' = Some g"
  proof (rule Cons.IH [OF refl Cons.prems(2,3)], intro allI impI)
    fix p' :: jsstring and g' r'
    assume a: "length p' < length pre" "g' \<noteq> []" "semicolon \<notin> set g'"
    show "?s' \<noteq> p' @ lit ''data:'' @ g' @ semicolon # r'"
    proof
      assume "?s' = p' @ lit ''data:'' @ g' @ semicolon # r'"
      then have "s = (c # p') @ lit ''data:'' @ g' @ semicolon # r'" using s by simp
      moreover have "length (c # p') < length (c # pre)" using a(1) by simp
      ultimately show False using Cons.prems(4) a(2,3) by blast
    qed
  qed
  with step show ?case by simp
qed

lemma match_group1_None:
  "\<forall>p g r. g \<noteq> [] \<longrightarrow> semicolon \<notin> set g \<longrightarrow> s \<noteq> p @ lit ''data:'' @ g @ semicolon # r
   \<Longrightarrow> match_group1 s = None"
proof (induction s)
  case Nil
  then show ?case by (simp add: match_here_def lit_def)
next
  case (Cons c cs)
  have h: "match_here (c # cs) = None"
  proof (cases "match_here (c # cs)")
    case (Some g)
    then obtain r where "c # cs = [] @ lit ''data:'' @ g @ semicolon # r" "g \<noteq> []" "semicolon \<notin> set g"
      by (auto simp: match_here_Some)
    with Cons.prems show ?thesis by blast
  qed simp
  have "match_group1 cs = None"
  proof (rule Cons.IH, intro allI impI)
    fix p g r assume a: "g \<noteq> []" "semicolon \<notin> set g"
    show "cs \<noteq> p @ lit ''data:'' @ g @ semicolon # r"
    proof
      assume "cs = p @ lit ''data:'' @ g @ semicolon # r"
      then have "c # cs = (c # p) @ lit ''data:'' @ g @ semicolon # r" by simp
      with Cons.prems a show False by blast
    qed
  qed
  with h show ?case by simp
qed

text \<open>
  C6, as the code has it. The MIME type of the request is the text between \<open>data:\<close> and
  the next semicolon at the leftmost place of the string, wherever that is, where
  \<open>data:\<close> is followed by at least one character other than a semicolon and then by a
  semicolon; for a data URL that names its media type this is its prefix. A string
  with no such place gets \<open>image/png\<close>.
\<close>

theorem mimeType_leftmost_header:
  "(base64Image = pre @ lit ''data:'' @ g @ semicolon # rest \<and> g \<noteq> [] \<and> semicolon \<notin> set g
      \<and> (\<forall>p' g' r'. length p' < length pre \<longrightarrow> g' \<noteq> [] \<longrightarrow> semicolon \<notin> set g'
             \<longrightarrow> base64Image \<noteq> p' @ lit ''data:'' @ g' @ semicolon # r')
      \<longrightarrow> mimeType base64Image = g)
   \<and> ((\<forall>p g r. g \<noteq> [] \<longrightarrow> semicolon \<notin> set g
             \<longrightarrow> base64Image \<noteq> p @ lit ''data:'' @ g @ semicolon # r)
      \<longrightarrow> mimeType base64Image = lit ''image/png'')"
proof (intro conjI impI)
  assume "base64Image = pre @ lit ''data:'' @ g @ semicolon # rest \<and> g \<noteq> [] \<and> semicolon \<notin> set g
      \<and> (\<forall>p' g' r'. length p' < length pre \<longrightarrow> g' \<noteq> [] \<longrightarrow> semicolon \<notin> set g'
             \<longrightarrow> base64Image \<noteq> p' @ lit ''data:'' @ g' @ semicolon # r')"
  then have "match_group1 base64Image = Some g" and "g \<noteq> []"
    using match_group1_leftmost by blast+
  then show "mimeType base64Image = g" by (simp add: mimeType_def)
next
  assume "\<forall>p g r. g \<noteq> [] \<longrightarrow> semicolon \<notin> set g
             \<longrightarrow> base64Image \<noteq> p @ lit ''data:'' @ g @ semicolon # r"
  then have "match_group1 base64Image = None" by (rule match_group1_None)
  then show "mimeType base64Image = lit ''image/png''" by (simp add: mimeType_def)
qed

text \<open>
  C6, witness: a JPEG data URL, whose header is its prefix, and a bare base64 payload.
\<close>

theorem mimeType_leftmost_header_witness:
  "mimeType (lit ''data:image/jpeg;base64,/9j/AA'') = lit ''image/jpeg''
   \<and> mimeType (lit ''/9j/AA'') = lit ''image/png''"
proof -
  have a: "lit ''data:image/jpeg;base64,/9j/AA''
             = [] @ lit ''data:'' @ lit ''image/jpeg'' @ semicolon # lit ''base64,/9j/AA''"
    by (simp add: lit_def semicolon_def)
  have b: "lit ''image/jpeg'' \<noteq> [] \<and> semicolon \<notin> set (lit ''image/jpeg'')"
    by (simp add: lit_def semicolon_def)
  have c: "\<forall>p g r. g \<noteq> [] \<longrightarrow> semicolon \<notin> set g
             \<longrightarrow> lit ''/9j/AA'' \<noteq> p @ lit ''data:'' @ g @ semicolon # r"
  proof (intro allI impI notI)
    fix p g r assume "lit ''/9j/AA'' = p @ lit ''data:'' @ g @ semicolon # r"
    then have "semicolon \<in> set (lit ''/9j/AA'')" by simp
    then show False by (simp add: lit_def semicolon_def)
  qed
  show ?thesis
    using mimeType_leftmost_header [of "lit ''data:image/jpeg;base64,/9j/AA''" "[]" "lit ''image/jpeg''"
        "lit ''base64,/9j/AA''"]
      mimeType_leftmost_header [of "lit ''/9j/AA''" "[]" "[]" "[]"] a b c
    by simp
qed

text \<open>
  C6, counterexample to the claim as stated for every string: in a string that does
  not begin with \<open>data:\<close> the header is no prefix, and still the MIME type is taken from
  it and is not the default.
\<close>

theorem mimeType_prefix_counterexample:
  "\<not> prefix (lit ''data:'') (lit ''url(data:image/gif;base64,R0lG)'')
   \<and> mimeType (lit ''url(data:image/gif;base64,R0lG)'') \<noteq> lit ''image/png''"
  by (simp add: mimeType_def match_here_def lit_def semicolon_def)

lemma mimeType_without_media_type:
  "mimeType (lit ''data:;base64,iVBORw0KGgo='') = lit ''image/png''"
  by (simp add: mimeType_def match_here_def lit_def semicolon_def)

section \<open>The credential check\<close>

lemma trim_all_ws:
  assumes "\<forall>c\<in>set k. is_trim_ws c"
  shows "trim k = []"
proof -
  have d: "dropWhile is_trim_ws k = []" using assms by simp
  show ?thesis unfolding trim_def d by simp
qed

text \<open>
  C2. When the credential is missing, empty or made of white space only, both copies of
  \<open>extractNumbersFromImage\<close> throw their setup-required error and have sent no request,
  whatever the provider would have answered.
\<close>

theorem blank_credential_setup_required:
  "API_KEY = None \<or> (\<exists>k. API_KEY = Some k \<and> (\<forall>c\<in>set k. is_trim_ws c))
   \<Longrightarrow> extractNumbersFromImage1 eng API_KEY generateContent base64Image
         = (Inl SETUP_REQUIRED1, [])
       \<and> extractNumbersFromImage2 eng API_KEY generateContent base64Image
         = (Inl SETUP_REQUIRED2, [])"
  by (auto simp: extractNumbersFromImage1_def extractNumbersFromImage2_def trim_all_ws)

text \<open>
  C2, witness: a credential of a space, a tab, a no-break space and an ideographic space.
\<close>

theorem blank_credential_setup_required_witness:
  "extractNumbersFromImage1 sample_engine (Some [0x20, 0x9, 0xA0, 0x3000])
       (\<lambda>req. Resolved None) (lit ''data:image/png;base64,iVBORw0KGgo='')
     = (Inl SETUP_REQUIRED1, [])
   \<and> extractNumbersFromImage2 sample_engine (Some [0x20, 0x9, 0xA0, 0x3000])
       (\<lambda>req. Resolved None) (lit ''data:image/png;base64,iVBORw0KGgo='')
     = (Inl SETUP_REQUIRED2, [])"
proof -
  have "\<forall>c\<in>set [0x20, 0x9, 0xA0, 0x3000 :: jschar]. is_trim_ws c"
    by (simp add: is_trim_ws_def)
  then show ?thesis
    using blank_credential_setup_required [of "Some [0x20, 0x9, 0xA0, 0x3000]" sample_engine
        "\<lambda>req. Resolved None" "lit ''data:image/png;base64,iVBORw0KGgo=''"]
    by blast
qed

text \<open>
  C10. The credential \<open>'undefined'\<close> is treated exactly like a missing one: the same
  setup-required error and no request sent.
\<close>

theorem undefined_credential_like_missing:
  "extractNumbersFromImage1 eng (Some (lit ''undefined'')) generateContent base64Image
     = extractNumbersFromImage1 eng None generateContent base64Image
   \<and> extractNumbersFromImage1 eng (Some (lit ''undefined'')) generateContent base64Image
     = (Inl SETUP_REQUIRED1, [])
   \<and> extractNumbersFromImage2 eng (Some (lit ''undefined'')) generateContent base64Image
     = extractNumbersFromImage2 eng None generateContent base64Image
   \<and> extractNumbersFromImage2 eng (Some (lit ''undefined'')) generateContent base64Image
     = (Inl SETUP_REQUIRED2, [])"
  by (simp add: extractNumbersFromImage1_def extractNumbersFromImage2_def)

section \<open>Error classification\<close>

lemma messages1_distinct:
  "RATE_LIMIT1 \<noteq> INVALID_KEY1" "RATE_LIMIT1 \<noteq> PERMISSION_DENIED1" "RATE_LIMIT1 \<noteq> GENERIC1"
  by (simp_all add: RATE_LIMIT1_def INVALID_KEY1_def PERMISSION_DENIED1_def GENERIC1_def lit_def)

lemma messages2_distinct:
  "RATE_LIMIT2 \<noteq> INVALID_KEY2" "RATE_LIMIT2 \<noteq> MODEL_ERROR2" "RATE_LIMIT2 \<noteq> GENERIC2"
  by (simp_all add: RATE_LIMIT2_def INVALID_KEY2_def MODEL_ERROR2_def GENERIC2_def lit_def)

text \<open>
  C4, as the code has it. The checks run in a fixed order, so a message is classified
  as rate limited exactly when it contains \<open>429\<close> and none of the indicators tested
  before: \<open>401\<close>, \<open>API_KEY_INVALID\<close>, and in the first copy also \<open>not found\<close> and \<open>403\<close>.
\<close>

theorem rate_limit_after_credential_checks:
  "(classify1 (Some msg) = RATE_LIMIT1 \<longleftrightarrow>
      str_includes msg (lit ''429'') \<and> \<not> str_includes msg (lit ''401'')
      \<and> \<not> str_includes msg (lit ''API_KEY_INVALID'') \<and> \<not> str_includes msg (lit ''not found'')
      \<and> \<not> str_includes msg (lit ''403''))
   \<and> (classify2 (Some msg) = RATE_LIMIT2 \<longleftrightarrow>
      str_includes msg (lit ''429'') \<and> \<not> str_includes msg (lit ''401'')
      \<and> \<not> str_includes msg (lit ''API_KEY_INVALID''))"
  using messages1_distinct messages2_distinct
  by (auto simp: classify1_def classify2_def or_empty_def Let_def)

text \<open>C4, witness: a rate-limit message with no other indicator.\<close>

theorem rate_limit_after_credential_checks_witness:
  "classify1 (Some (lit ''[429 Too Many Requests] Resource has been exhausted'')) = RATE_LIMIT1
   \<and> classify2 (Some (lit ''[429 Too Many Requests] Resource has been exhausted'')) = RATE_LIMIT2"
  using rate_limit_after_credential_checks
          [of "lit ''[429 Too Many Requests] Resource has been exhausted''"]
  by (simp add: lit_def)

text \<open>
  C4, counterexample to the claim as stated: a rate-limit message that also contains
  \<open>401\<close>, here inside a project number, is classified as an invalid key by both copies.
\<close>

theorem rate_limit_regardless_counterexample:
  "str_includes (lit ''[429 Too Many Requests] Quota exceeded for project 14012'') (lit ''429'')
   \<and> classify1 (Some (lit ''[429 Too Many Requests] Quota exceeded for project 14012''))
       = INVALID_KEY1
   \<and> classify2 (Some (lit ''[429 Too Many Requests] Quota exceeded for project 14012''))
       = INVALID_KEY2
   \<and> INVALID_KEY1 \<noteq> RATE_LIMIT1 \<and> INVALID_KEY2 \<noteq> RATE_LIMIT2"
proof -
  have "str_includes (lit ''[429 Too Many Requests] Quota exceeded for project 14012'') (lit ''429'')"
    by (simp add: lit_def)
  moreover have "str_includes (lit ''[429 Too Many Requests] Quota exceeded for project 14012'') (lit ''401'')"
    by (simp add: lit_def)
  ultimately show ?thesis
    using messages1_distinct(1) messages2_distinct(1)
    by (simp add: classify1_def classify2_def or_empty_def Let_def del: str_includes.simps)
qed

section \<open>A response without text\<close>

lemma parse_default_text:
  "JSON_parse (trim DEFAULT_TEXT) = Some (JObj [(lit ''numbers'', JArr [])])"
  by code_simp

lemma example_key_present:
  "EXAMPLE_KEY \<noteq> []" "EXAMPLE_KEY \<noteq> lit ''undefined''" "trim EXAMPLE_KEY \<noteq> []"
proof -
  show "EXAMPLE_KEY \<noteq> []" "EXAMPLE_KEY \<noteq> lit ''undefined''"
    by (simp_all add: EXAMPLE_KEY_def lit_def)
  show "trim EXAMPLE_KEY \<noteq> []" unfolding EXAMPLE_KEY_def by code_simp
qed

lemma one_request_with_credential:
  "length (snd (extractNumbersFromImage1 eng (Some EXAMPLE_KEY) generateContent base64Image)) = 1"
  "length (snd (extractNumbersFromImage2 eng (Some EXAMPLE_KEY) generateContent base64Image)) = 1"
  by (simp_all add: extractNumbersFromImage1_def extractNumbersFromImage2_def Let_def
      example_key_present)

lemma try_without_text:
  "try1 eng (Resolved None) = Inr (JObj [(lit ''numbers'', JArr [])])"
  "try1 eng (Resolved (Some [])) = Inr (JObj [(lit ''numbers'', JArr [])])"
  "try2 eng (Resolved None) = Inr (JObj [(lit ''numbers'', JArr [])])"
  "try2 eng (Resolved (Some [])) = Inr (JObj [(lit ''numbers'', JArr [])])"
  by (simp_all add: try1_def try2_def textOutput_def parse_default_text)

text \<open>
  C5, what the code does: with a credential present, when the response has no text or
  an empty text, both copies return the object parsed from the default text, which
  has an empty \<open>numbers\<close> array and no \<open>summary\<close> property, so it is not of the declared
  type \<open>ExtractionResponse\<close> and not the object \<open>{ numbers: [], summary: "" }\<close>.
\<close>

theorem empty_text_lacks_summary:
  "fst (extractNumbersFromImage1 eng (Some EXAMPLE_KEY) (\<lambda>req. Resolved None) base64Image)
     = Inr (JObj [(lit ''numbers'', JArr [])])
   \<and> fst (extractNumbersFromImage1 eng (Some EXAMPLE_KEY) (\<lambda>req. Resolved (Some [])) base64Image)
     = Inr (JObj [(lit ''numbers'', JArr [])])
   \<and> fst (extractNumbersFromImage2 eng (Some EXAMPLE_KEY) (\<lambda>req. Resolved None) base64Image)
     = Inr (JObj [(lit ''numbers'', JArr [])])
   \<and> fst (extractNumbersFromImage2 eng (Some EXAMPLE_KEY) (\<lambda>req. Resolved (Some [])) base64Image)
     = Inr (JObj [(lit ''numbers'', JArr [])])
   \<and> property (JObj [(lit ''numbers'', JArr [])]) (lit ''summary'') = None
   \<and> as_ExtractionResponse (JObj [(lit ''numbers'', JArr [])]) = None
   \<and> JObj [(lit ''numbers'', JArr [])] \<noteq> EMPTY_RESPONSE"
proof -
  have "property (JObj [(lit ''numbers'', JArr [])]) (lit ''summary'') = None"
    "as_ExtractionResponse (JObj [(lit ''numbers'', JArr [])]) = None"
    "JObj [(lit ''numbers'', JArr [])] \<noteq> EMPTY_RESPONSE"
    by (simp_all add: EMPTY_RESPONSE_def lit_def)
  then show ?thesis
    by (simp add: extractNumbersFromImage1_def extractNumbersFromImage2_def Let_def
        example_key_present try_without_text)
qed

section \<open>The end of an attempt\<close>

lemma get_property:
  "property data k = Some v \<Longrightarrow> get eng (Some data) k = Inr (Some v)"
  by (cases data) auto

lemma get_length_array:
  "get eng (Some (JArr items)) (lit ''length'') = Inr (Some (JNum (Decimal False (length items) 0)))"
  by simp

lemma processImage_end_failure:
  "processImage_end eng (Inl message) s = s\<lparr>error := Some message, status := Error\<rparr>"
  by (simp add: processImage_end_def processImage_catch_def)

lemma processImage_end_array:
  "property data (lit ''numbers'') = Some (JArr items) \<Longrightarrow>
   processImage_end eng (Inr data) s =
     (if items = [] then s\<lparr>results := data, status := Success, error := Some NO_NUMBERS\<rparr>
      else s\<lparr>results := data, status := Success\<rparr>)"
  by (simp add: processImage_end_def get_property Let_def)

text \<open>
  C7. When the adapter returns a value whose \<open>numbers\<close> is the empty array, the attempt
  ends with status \<open>success\<close>, the returned value as results and the advisory message
  "No numbers detected" as error; when the adapter throws, whatever the message, the
  attempt ends with status \<open>error\<close> and that message.
\<close>

theorem empty_list_ends_in_success:
  "(fst (extract base64) = Inr data \<and> property data (lit ''numbers'') = Some (JArr [])
      \<longrightarrow> status (processImage eng extract base64 s) = Success
          \<and> error (processImage eng extract base64 s) = Some NO_NUMBERS
          \<and> results (processImage eng extract base64 s) = data)
   \<and> (fst (extract base64) = Inl message
      \<longrightarrow> status (processImage eng extract base64 s) = Error
          \<and> error (processImage eng extract base64 s) = Some message)"
  by (simp add: processImage_def processImage_end_array processImage_end_failure Let_def)

lemma parse_empty_numbers:
  "JSON_parse (trim (lit ''{\"numbers\":[]}'')) = Some (JObj [(lit ''numbers'', JArr [])])"
  by code_simp

lemma extract2_empty_numbers:
  "fst (extractNumbersFromImage2 sample_engine (Some EXAMPLE_KEY)
          (\<lambda>req. Resolved (Some (lit ''{\"numbers\":[]}''))) IMG_A)
     = Inr (JObj [(lit ''numbers'', JArr [])])"
proof -
  have "lit ''{\"numbers\":[]}'' \<noteq> []" by (simp add: lit_def)
  then show ?thesis
    by (simp add: extractNumbersFromImage2_def try2_def textOutput_def parse_empty_numbers
        example_key_present Let_def)
qed

text \<open>
  C7, witness: the second copy of the adapter with a provider that answers
  \<open>{"numbers":[]}\<close>, and the same adapter without a credential.
\<close>

theorem empty_list_ends_in_success_witness:
  "status (processImage sample_engine
             (extractNumbersFromImage2 sample_engine (Some EXAMPLE_KEY)
                (\<lambda>req. Resolved (Some (lit ''{\"numbers\":[]}''))))
             IMG_A initial) = Success
   \<and> error (processImage sample_engine
             (extractNumbersFromImage2 sample_engine (Some EXAMPLE_KEY)
                (\<lambda>req. Resolved (Some (lit ''{\"numbers\":[]}''))))
             IMG_A initial) = Some NO_NUMBERS
   \<and> status (processImage sample_engine
             (extractNumbersFromImage2 sample_engine None (\<lambda>req. Resolved None))
             IMG_A initial) = Error
   \<and> error (processImage sample_engine
             (extractNumbersFromImage2 sample_engine None (\<lambda>req. Resolved None))
             IMG_A initial) = Some SETUP_REQUIRED2"
proof -
  have a: "property (JObj [(lit ''numbers'', JArr [])]) (lit ''numbers'') = Some (JArr [])"
    by simp
  have b: "fst (extractNumbersFromImage2 sample_engine None (\<lambda>req. Resolved None) IMG_A)
             = Inl SETUP_REQUIRED2"
    by (simp add: extractNumbersFromImage2_def)
  show ?thesis
    using empty_list_ends_in_success
            [of "extractNumbersFromImage2 sample_engine (Some EXAMPLE_KEY)
                   (\<lambda>req. Resolved (Some (lit ''{\"numbers\":[]}'')))"
                IMG_A "JObj [(lit ''numbers'', JArr [])]" sample_engine initial]
          empty_list_ends_in_success
            [of "extractNumbersFromImage2 sample_engine None (\<lambda>req. Resolved None)"
                IMG_A _ sample_engine initial SETUP_REQUIRED2]
          extract2_empty_numbers a b
    by simp
qed

section \<open>Copying a result\<close>

lemma remaining_timers:
  "map (\<lambda>t. t - e) (filter (\<lambda>t. e < t) (map (\<lambda>t. t - d) (filter (\<lambda>t. d < t) ts)))
     = map (\<lambda>t. t - (d + e)) (filter (\<lambda>t. d + e < t) (ts :: nat list))"
  by (induction ts) auto

lemma due_timers:
  "list_ex (\<lambda>t. t \<le> e) (map (\<lambda>t. t - d) (filter (\<lambda>t. d < t) ts)) \<or> list_ex (\<lambda>t. t \<le> d) ts
     \<longleftrightarrow> list_ex (\<lambda>t. t \<le> d + e) (ts :: nat list)"
  by (induction ts) auto

lemma advance_twice: "advance e (advance d s) = advance (d + e) s"
  using due_timers [of e d "timers s"]
  by (auto simp: advance_def remaining_timers)

text \<open>So it makes no difference in how many steps the time passes.\<close>

text \<open>
  C8, as the code has it. There is one \<open>copiedIndex\<close> for all results: a copy marks its
  result and leaves no other result marked; it changes none of status, results,
  preview and error and cancels no call. The callback it schedules runs 1000 ms later
  and leaves no result marked; until then the result stays marked, as long as no
  callback of an earlier copy is due.
\<close>

theorem copy_marks_only_its_result:
  "copied (copyToClipboard text idx s) j = (j = idx)
   \<and> status (copyToClipboard text idx s) = status s
   \<and> results (copyToClipboard text idx s) = results s
   \<and> previewUrl (copyToClipboard text idx s) = previewUrl s
   \<and> error (copyToClipboard text idx s) = error s
   \<and> pending (copyToClipboard text idx s) = pending s
   \<and> copiedIndex (advance 1000 (copyToClipboard text idx s)) = None
   \<and> (d < 1000 \<and> (\<forall>t\<in>set (timers s). d < t)
        \<longrightarrow> copiedIndex (advance d (copyToClipboard text idx s)) = Some idx)"
proof -
  have "d < 1000 \<and> (\<forall>t\<in>set (timers s). d < t)
          \<longrightarrow> copiedIndex (advance d (copyToClipboard text idx s)) = Some idx"
    by (auto simp: copyToClipboard_def advance_def list_ex_iff dest: leD)
  moreover have "copiedIndex (advance 1000 (copyToClipboard text idx s)) = None"
    by (simp add: copyToClipboard_def advance_def)
  moreover have "copied (copyToClipboard text idx s) j = (j = idx)"
    by (auto simp: copied_def copyToClipboard_def)
  ultimately show ?thesis
    by (simp add: copyToClipboard_def)
qed

text \<open>C8, witness: the first copy on a fresh page.\<close>

theorem copy_marks_only_its_result_witness:
  "copied (copyToClipboard (JStr (lit ''+1 555-0100'')) 0 initial) 0
   \<and> \<not> copied (copyToClipboard (JStr (lit ''+1 555-0100'')) 0 initial) 1
   \<and> copiedIndex (advance 1000 (copyToClipboard (JStr (lit ''+1 555-0100'')) 0 initial)) = None
   \<and> copiedIndex (advance 999 (copyToClipboard (JStr (lit ''+1 555-0100'')) 0 initial)) = Some 0"
proof -
  have "(999::nat) < 1000 \<and> (\<forall>t\<in>set (timers initial). 999 < t)"
    by (simp add: initial_def)
  then show ?thesis
    using copy_marks_only_its_result [of "JStr (lit ''+1 555-0100'')" 0 initial 0 999]
      copy_marks_only_its_result [of "JStr (lit ''+1 555-0100'')" 0 initial 1 999]
    by simp
qed

lemma after_two_numbers:
  "run sample_engine initial [Paste (Some [(lit ''image/png'', Some IMG_A)]), Answer 0 (Inr TWO_NUMBERS)]
     = initial\<lparr>previewUrl := Some IMG_A, status := Success, results := TWO_NUMBERS\<rparr>"
proof -
  have i: "str_includes (lit ''image/png'') (lit ''image'')" by (simp add: lit_def)
  have p: "property TWO_NUMBERS (lit ''numbers'') =
      Some (JArr [JObj [(lit ''number'', JStr (lit ''+1 555-0100'')), (lit ''country'', JStr (lit ''USA''))],
            JObj [(lit ''number'', JStr (lit ''+44 20 7946 0958'')), (lit ''country'', JStr (lit ''UK''))]])"
    by (simp add: TWO_NUMBERS_def)
  show ?thesis
    using i by (simp add: run_def handlePaste_def processImage_begin_def initial_def remove_nth_def
        processImage_end_array [OF p] del: str_includes.simps)
qed

text \<open>
  C8, counterexample to the claim as stated: with two results shown, a copy of the
  first marks it, and a copy of the second then takes the mark of the first away.
\<close>

theorem copy_changes_other_marker_counterexample:
  "copied (run sample_engine initial
             [Paste (Some [(lit ''image/png'', Some IMG_A)]), Answer 0 (Inr TWO_NUMBERS),
              CopyClick (JStr (lit ''+1 555-0100'')) 0]) 0
   \<and> \<not> copied (run sample_engine initial
             [Paste (Some [(lit ''image/png'', Some IMG_A)]), Answer 0 (Inr TWO_NUMBERS),
              CopyClick (JStr (lit ''+1 555-0100'')) 0,
              CopyClick (JStr (lit ''+44 20 7946 0958'')) 1]) 0"
proof -
  let ?s = "initial\<lparr>previewUrl := Some IMG_A, status := Success, results := TWO_NUMBERS\<rparr>"
  have sc: "shows_copy ?s 0" "shows_copy (copyToClipboard (JStr (lit ''+1 555-0100'')) 0 ?s) 1"
    by (simp_all add: shows_copy_def hasResults_def TWO_NUMBERS_def copyToClipboard_def)
  have r1: "run sample_engine initial
             [Paste (Some [(lit ''image/png'', Some IMG_A)]), Answer 0 (Inr TWO_NUMBERS),
              CopyClick (JStr (lit ''+1 555-0100'')) 0]
            = copyToClipboard (JStr (lit ''+1 555-0100'')) 0 ?s"
    using after_two_numbers sc(1) by (simp add: run_def)
  have r2: "run sample_engine initial
             [Paste (Some [(lit ''image/png'', Some IMG_A)]), Answer 0 (Inr TWO_NUMBERS),
              CopyClick (JStr (lit ''+1 555-0100'')) 0,
              CopyClick (JStr (lit ''+44 20 7946 0958'')) 1]
            = copyToClipboard (JStr (lit ''+44 20 7946 0958'')) 1
                (copyToClipboard (JStr (lit ''+1 555-0100'')) 0 ?s)"
    using after_two_numbers sc by (simp add: run_def)
  show ?thesis
    unfolding r1 r2 by (simp add: copied_def copyToClipboard_def)
qed

section \<open>Capture while loading\<close>

lemma loading_ignores_box_click:
  "status s = Loading \<Longrightarrow> step eng s (BoxClick r) = s"
  by (simp add: handleClipboardAction_def)

lemma loading_ignores_choose_file:
  "status s = Loading \<Longrightarrow> step eng s (ChooseFile file) = s"
  by (simp add: openFileSelector_def)

lemma after_first_paste:
  "status (run sample_engine initial [Paste (Some [(lit ''image/png'', Some IMG_A)])]) = Loading
   \<and> pending (run sample_engine initial [Paste (Some [(lit ''image/png'', Some IMG_A)])]) = [IMG_A]"
proof -
  have "str_includes (lit ''image/png'') (lit ''image'')" by (simp add: lit_def)
  then show ?thesis
    by (simp add: run_def handlePaste_def processImage_begin_def initial_def
        del: str_includes.simps)
qed

text \<open>
  C3, what the code does: \<open>handlePaste\<close> does not look at the status. After a first
  paste the page is loading with one call pending, and a second paste starts a second
  call.
\<close>

theorem paste_while_loading_starts_second_call:
  "status (run sample_engine initial [Paste (Some [(lit ''image/png'', Some IMG_A)])]) = Loading
   \<and> pending (run sample_engine initial [Paste (Some [(lit ''image/png'', Some IMG_A)])]) = [IMG_A]
   \<and> pending (run sample_engine initial
        [Paste (Some [(lit ''image/png'', Some IMG_A)]),
         Paste (Some [(lit ''image/jpeg'', Some IMG_B)])]) = [IMG_A, IMG_B]"
proof -
  have "str_includes (lit ''image/png'') (lit ''image'')"
    "str_includes (lit ''image/jpeg'') (lit ''image'')"
    by (simp_all add: lit_def)
  then show ?thesis
    by (simp add: run_def handlePaste_def processImage_begin_def initial_def
        del: str_includes.simps)
qed

section \<open>Reset and the calls in flight\<close>

text \<open>
  C1, as the code has it. A reset clears results, preview and error and sets the status
  to \<open>idle\<close>, and it leaves the pending calls pending. The answer of such a call is then
  applied like any other: a thrown error sets the status \<open>error\<close> and its message, and a
  returned value with a list of numbers becomes the results, with status \<open>success\<close>.
\<close>

theorem reset_does_not_cancel:
  "pending (resetApp s) = pending s
   \<and> status (resetApp s) = Idle \<and> results (resetApp s) = JNull
   \<and> error (resetApp s) = None \<and> previewUrl (resetApp s) = None
   \<and> (i < length (pending s)
        \<longrightarrow> status (step eng (resetApp s) (Answer i (Inl message))) = Error
            \<and> error (step eng (resetApp s) (Answer i (Inl message))) = Some message)
   \<and> (i < length (pending s) \<and> property data (lit ''numbers'') = Some (JArr items)
        \<longrightarrow> status (step eng (resetApp s) (Answer i (Inr data))) = Success
            \<and> results (step eng (resetApp s) (Answer i (Inr data))) = data
            \<and> error (step eng (resetApp s) (Answer i (Inr data)))
                = (if items = [] then Some NO_NUMBERS else None))"
  by (simp add: resetApp_def processImage_end_failure processImage_end_array)

text \<open>
  C1, counterexample to the claim as stated: two images are pasted; the first call
  answers and the reset button appears; after the reset the page is idle without
  results while the second call is still pending; its answer then puts the page into
  \<open>success\<close> with results.
\<close>

theorem stale_response_counterexample:
  "pending (run sample_engine initial
      [Paste (Some [(lit ''image/png'', Some IMG_A)]),
       Paste (Some [(lit ''image/jpeg'', Some IMG_B)]),
       Answer 0 (Inr ONE_NUMBER), ResetClick]) = [IMG_B]
   \<and> status (run sample_engine initial
      [Paste (Some [(lit ''image/png'', Some IMG_A)]),
       Paste (Some [(lit ''image/jpeg'', Some IMG_B)]),
       Answer 0 (Inr ONE_NUMBER), ResetClick]) = Idle
   \<and> results (run sample_engine initial
      [Paste (Some [(lit ''image/png'', Some IMG_A)]),
       Paste (Some [(lit ''image/jpeg'', Some IMG_B)]),
       Answer 0 (Inr ONE_NUMBER), ResetClick]) = JNull
   \<and> status (run sample_engine initial
      [Paste (Some [(lit ''image/png'', Some IMG_A)]),
       Paste (Some [(lit ''image/jpeg'', Some IMG_B)]),
       Answer 0 (Inr ONE_NUMBER), ResetClick, Answer 0 (Inr TWO_NUMBERS)]) = Success
   \<and> results (run sample_engine initial
      [Paste (Some [(lit ''image/png'', Some IMG_A)]),
       Paste (Some [(lit ''image/jpeg'', Some IMG_B)]),
       Answer 0 (Inr ONE_NUMBER), ResetClick, Answer 0 (Inr TWO_NUMBERS)]) = TWO_NUMBERS"
proof -
  have i: "str_includes (lit ''image/png'') (lit ''image'')"
    "str_includes (lit ''image/jpeg'') (lit ''image'')"
    by (simp_all add: lit_def)
  have p1: "property ONE_NUMBER (lit ''numbers'') =
      Some (JArr [JObj [(lit ''number'', JStr (lit ''+1 555-0100'')), (lit ''country'', JStr (lit ''USA''))]])"
    by (simp add: ONE_NUMBER_def)
  have p2: "property TWO_NUMBERS (lit ''numbers'') =
      Some (JArr [JObj [(lit ''number'', JStr (lit ''+1 555-0100'')), (lit ''country'', JStr (lit ''USA''))],
            JObj [(lit ''number'', JStr (lit ''+44 20 7946 0958'')), (lit ''country'', JStr (lit ''UK''))]])"
    by (simp add: TWO_NUMBERS_def)
  have t: "truthy (Some ONE_NUMBER)" by (simp add: ONE_NUMBER_def)
  show ?thesis
    using i t by (simp add: run_def handlePaste_def processImage_begin_def initial_def remove_nth_def
        processImage_end_array [OF p1] processImage_end_array [OF p2]
        shows_reset_def hasResults_def resetApp_def del: str_includes.simps)
qed

text \<open>C1, witness: a reset while the first call is pending, and then its answer.\<close>

theorem reset_does_not_cancel_witness:
  "status (step sample_engine
             (resetApp (run sample_engine initial [Paste (Some [(lit ''image/png'', Some IMG_A)])]))
             (Answer 0 (Inr ONE_NUMBER))) = Success
   \<and> results (step sample_engine
             (resetApp (run sample_engine initial [Paste (Some [(lit ''image/png'', Some IMG_A)])]))
             (Answer 0 (Inr ONE_NUMBER))) = ONE_NUMBER
   \<and> status (step sample_engine
             (resetApp (run sample_engine initial [Paste (Some [(lit ''image/png'', Some IMG_A)])]))
             (Answer 0 (Inl RATE_LIMIT2))) = Error"
proof -
  have p1: "property ONE_NUMBER (lit ''numbers'') =
      Some (JArr [JObj [(lit ''number'', JStr (lit ''+1 555-0100'')), (lit ''country'', JStr (lit ''USA''))]])"
    by (simp add: ONE_NUMBER_def)
  have l: "0 < length (pending (run sample_engine initial [Paste (Some [(lit ''image/png'', Some IMG_A)])]))"
    using after_first_paste by simp
  show ?thesis
    using reset_does_not_cancel [of "run sample_engine initial [Paste (Some [(lit ''image/png'', Some IMG_A)])]"
        0 sample_engine RATE_LIMIT2 ONE_NUMBER] p1 l
    by (simp del: step.simps)
qed

section \<open>Serializing and parsing a response\<close>

lemma lex_run_append:
  "lex_run st ts (a @ b) =
     (case lex_run st ts a of None \<Rightarrow> None | Some (st', ts') \<Rightarrow> lex_run st' ts' b)"
  by (induction a arbitrary: st ts) (auto split: option.splits)

lemma hex_val_hex_digit:
  assumes "n < 16"
  shows "hex_val (hex_digit n) = Some (of_nat n)"
proof -
  have "\<forall>m \<in> set [0..<16]. hex_val (hex_digit m) = Some (of_nat m)"
    by (simp add: upt_rec hex_val_def hex_digit_def is_digit_def)
  then show ?thesis using assms by simp
qed

lemma base16_digits:
  assumes "n < (65536::nat)"
  shows "4096 * (n div 4096 mod 16) + 256 * (n div 256 mod 16) + 16 * (n div 16 mod 16) + n mod 16 = n"
proof -
  have e2: "n div 256 = n div 16 div 16"
    using div_mult2_eq [of n 16 16] by simp
  have e3: "n div 4096 = n div 16 div 16 div 16"
    using div_mult2_eq [of n 256 16] e2 by simp
  have a: "n = 16 * (n div 16) + n mod 16" by simp
  have b: "n div 16 = 16 * (n div 16 div 16) + n div 16 mod 16" by simp
  have c: "n div 16 div 16 = 16 * (n div 16 div 16 div 16) + n div 16 div 16 mod 16" by simp
  have "n div 4096 < 16" using assms by (simp add: less_mult_imp_div_less)
  then have d: "n div 16 div 16 div 16 mod 16 = n div 16 div 16 div 16"
    using e3 by simp
  show ?thesis unfolding e2 e3 d using a b c by linarith
qed

lemma hex_digits_value:
  fixes c :: jschar
  shows "16 * (16 * (16 * (16 * 0 + of_nat (unat c div 4096 mod 16))
                       + of_nat (unat c div 256 mod 16))
                 + of_nat (unat c div 16 mod 16))
           + of_nat (unat c mod 16) = c"
proof -
  let ?A = "of_nat (unat c div 4096 mod 16) :: jschar"
  let ?B = "of_nat (unat c div 256 mod 16) :: jschar"
  let ?D = "of_nat (unat c div 16 mod 16) :: jschar"
  let ?E = "of_nat (unat c mod 16) :: jschar"
  have "unat c < 65536" using unsigned_less [of c] by simp
  then have "4096 * (unat c div 4096 mod 16) + 256 * (unat c div 256 mod 16)
          + 16 * (unat c div 16 mod 16) + unat c mod 16 = unat c"
    by (rule base16_digits)
  then have "(of_nat (4096 * (unat c div 4096 mod 16) + 256 * (unat c div 256 mod 16)
          + 16 * (unat c div 16 mod 16) + unat c mod 16) :: jschar) = of_nat (unat c)"
    by (rule arg_cong)
  then have e: "4096 * ?A + 256 * ?B + 16 * ?D + ?E = c"
    by (simp only: of_nat_add of_nat_mult of_nat_numeral) simp
  have "16 * (16 * (16 * (16 * 0 + ?A) + ?B) + ?D) + ?E = 4096 * ?A + 256 * ?B + 16 * ?D + ?E"
    by (simp only: distrib_left mult.assoc [symmetric] mult_zero_right add_0_left) simp
  with e show ?thesis by (simp only:)
qed

lemma lex_hex4:
  assumes "hex_val h3 = Some d3" "hex_val h2 = Some d2" "hex_val h1 = Some d1"
    "hex_val h0 = Some d0"
  shows "lex_run (InStr acc) ts (0x5C # 0x75 # h3 # h2 # h1 # h0 # rest)
           = lex_run (InStr ((16 * (16 * (16 * (16 * 0 + d3) + d2) + d1) + d0) # acc)) ts rest"
  by (simp add: assms escape_val_def)

lemma lex_unicode_escape:
  "lex_run (InStr acc) ts (unicode_escape c @ rest) = lex_run (InStr (c # acc)) ts rest"
proof -
  have d: "unat c div 4096 mod 16 < 16" "unat c div 256 mod 16 < 16"
    "unat c div 16 mod 16 < 16" "unat c mod 16 < 16"
    by simp_all
  have "lex_run (InStr acc) ts (unicode_escape c @ rest)
          = lex_run (InStr ((16 * (16 * (16 * (16 * 0 + of_nat (unat c div 4096 mod 16))
                       + of_nat (unat c div 256 mod 16))
                 + of_nat (unat c div 16 mod 16))
           + of_nat (unat c mod 16)) # acc)) ts rest"
    unfolding unicode_escape_def append_Cons append_Nil
    by (rule lex_hex4 [OF hex_val_hex_digit [OF d(1)] hex_val_hex_digit [OF d(2)]
          hex_val_hex_digit [OF d(3)] hex_val_hex_digit [OF d(4)]])
  then show ?thesis by (simp only: hex_digits_value)
qed

lemma surrogate_is_literal:
  assumes "is_leading_surrogate c \<or> is_trailing_surrogate c"
  shows "lex_step (InStr acc) ts c = Some (InStr (c # acc), ts)"
proof -
  have "55296 \<le> unat c" using assms
    by (auto simp: is_leading_surrogate_def is_trailing_surrogate_def word_le_nat_alt)
  then have "c \<noteq> 0x22" "c \<noteq> 0x5C" "\<not> c < 0x20"
    by (auto simp: word_less_nat_alt)
  then show ?thesis by simp
qed

lemma lex_quote_unit:
  "lex_run (InStr acc) ts (quote_unit c @ rest) = lex_run (InStr (c # acc)) ts rest"
proof (cases "short_escape c")
  case (Some e)
  then show ?thesis
    by (auto simp: quote_unit_def short_escape_def escape_val_def split: if_splits)
next
  case None
  then have n: "c \<noteq> 0x22" "c \<noteq> 0x5C"
    by (auto simp: short_escape_def split: if_splits)
  show ?thesis
  proof (cases "c < 0x20")
    case True
    then show ?thesis using None by (simp add: quote_unit_def lex_unicode_escape)
  next
    case False
    then show ?thesis using None n by (simp add: quote_unit_def)
  qed
qed

lemma lex_quote_units:
  "lex_run (InStr acc) ts (quote_units s @ rest) = lex_run (InStr (rev s @ acc)) ts rest"
proof (induction s arbitrary: acc rule: quote_units.induct)
  case 1
  then show ?case by simp
next
  case (2 c)
  then show ?case by (simp add: lex_unicode_escape lex_quote_unit)
next
  case (3 c d cs)
  show ?case
  proof (cases "is_leading_surrogate c")
    case True
    show ?thesis
    proof (cases "is_trailing_surrogate d")
      case t: True
      have "lex_run (InStr acc) ts (c # d # quote_units cs @ rest)
              = lex_run (InStr (d # c # acc)) ts (quote_units cs @ rest)"
        using surrogate_is_literal [of c acc ts] surrogate_is_literal [of d "c # acc" ts] True t
        by simp
      then show ?thesis using True t "3.IH"(1) [of "d # c # acc"] by simp
    next
      case f: False
      then show ?thesis using True "3.IH"(2) [of "c # acc"] by (simp add: lex_unicode_escape)
    qed
  next
    case False
    then show ?thesis using "3.IH"(3) [of "c # acc"] "3.IH"(4) [of "c # acc"]
      by (simp add: lex_unicode_escape lex_quote_unit)
  qed
qed

lemma lex_quote:
  "lex_run Between ts (quote s @ rest) = lex_run Between (TStr s # ts) rest"
proof -
  have "lex_run Between ts (quote s @ rest) = lex_run (InStr []) ts (quote_units s @ 0x22 # rest)"
    by (simp add: quote_def lex_between_def is_json_ws_def)
  also have "\<dots> = lex_run (InStr (rev s)) ts (0x22 # rest)"
    using lex_quote_units [of "[]" ts s "0x22 # rest"] by simp
  also have "\<dots> = lex_run Between (TStr s # ts) rest" by simp
  finally show ?thesis .
qed

lemma lex_stringify_number:
  "lex_run Between ts (stringify_number e @ rest)
     = lex_run Between (rev (number_tokens e) @ ts) rest"
proof -
  have a: "\<And>ts rest. lex_run Between ts (lit ''{\"number\":'' @ rest)
             = lex_run Between (TColon # TStr (lit ''number'') # TLBrace # ts) rest"
    by (simp add: lit_def lex_between_def is_json_ws_def is_lower_def)
  have b: "\<And>ts rest. lex_run Between ts (lit '',\"country\":'' @ rest)
             = lex_run Between (TColon # TStr (lit ''country'') # TComma # ts) rest"
    by (simp add: lit_def lex_between_def is_json_ws_def is_lower_def)
  have c: "\<And>ts rest. lex_run Between ts (lit ''}'' @ rest) = lex_run Between (TRBrace # ts) rest"
    by (simp add: lit_def lex_between_def is_json_ws_def is_lower_def)
  show ?thesis
    by (simp only: stringify_number_def append_assoc a b c lex_quote)
       (simp add: number_tokens_def)
qed

lemma lex_join_comma:
  "es \<noteq> [] \<Longrightarrow>
   lex_run Between ts (join_comma (map stringify_number es) @ rest)
     = lex_run Between (rev (number_tokens (hd es) @ more_tokens (tl es)) @ ts) rest"
proof (induction es arbitrary: ts)
  case Nil
  then show ?case by simp
next
  case (Cons e es)
  show ?case
  proof (cases es)
    case Nil
    then show ?thesis by (simp add: lex_stringify_number more_tokens_def)
  next
    case (Cons e' es')
    have "lex_run Between ts (join_comma (map stringify_number (e # es)) @ rest)
            = lex_run Between (rev (number_tokens e) @ ts)
                (comma # join_comma (map stringify_number es) @ rest)"
      using Cons by (simp add: lex_stringify_number)
    also have "\<dots> = lex_run Between (TComma # rev (number_tokens e) @ ts)
                (join_comma (map stringify_number es) @ rest)"
      by (simp add: comma_def lex_between_def is_json_ws_def)
    also have "\<dots> = lex_run Between
         (rev (number_tokens (hd es) @ more_tokens (tl es)) @ TComma # rev (number_tokens e) @ ts) rest"
      using Cons.IH [of "TComma # rev (number_tokens e) @ ts"] Cons by simp
    finally show ?thesis using Cons by (simp add: more_tokens_def)
  qed
qed

lemma tokenize_stringify: "tokenize (JSON_stringify r) = Some (response_tokens r)"
proof -
  have a: "\<And>ts rest. lex_run Between ts (lit ''{\"numbers\":['' @ rest)
             = lex_run Between (TLBrack # TColon # TStr (lit ''numbers'') # TLBrace # ts) rest"
    by (simp add: lit_def lex_between_def is_json_ws_def is_lower_def)
  have b: "\<And>ts rest. lex_run Between ts (lit ''],\"summary\":'' @ rest)
             = lex_run Between (TColon # TStr (lit ''summary'') # TComma # TRBrack # ts) rest"
    by (simp add: lit_def lex_between_def is_json_ws_def is_lower_def)
  have c: "\<And>ts. lex_run Between ts (lit ''}'') = Some (Between, TRBrace # ts)"
    by (simp add: lit_def lex_between_def is_json_ws_def is_lower_def)
  have m: "\<And>ts rest. lex_run Between ts (join_comma (map stringify_number (numbers r)) @ rest)
        = lex_run Between
            (rev (case numbers r of [] \<Rightarrow> [] | e # es \<Rightarrow> number_tokens e @ more_tokens es) @ ts) rest"
    using lex_join_comma [of "numbers r"] by (cases "numbers r") simp_all
  have "lex_run Between [] (JSON_stringify r) = Some (Between, rev (response_tokens r))"
    by (simp only: JSON_stringify_def append_assoc a b m lex_quote [of _ _ "lit ''}''"] c)
       (simp add: response_tokens_def)
  then show ?thesis by (simp add: tokenize_def)
qed

lemma parse_number_tokens:
  assumes "m = WantValue \<or> m = FirstElem"
  shows "parse_run m (FArr xs # st) (number_tokens e @ rest)
           = parse_run ArrNext (FArr (number_json e # xs) # st) rest"
  using assms by (auto simp: number_tokens_def number_json_def parse_value_def)

lemma parse_more_tokens:
  "parse_run ArrNext (FArr xs # st) (more_tokens es @ rest)
     = parse_run ArrNext (FArr (rev (map number_json es) @ xs) # st) rest"
proof (induction es arbitrary: xs)
  case Nil
  then show ?case by (simp add: more_tokens_def)
next
  case (Cons e es)
  have "parse_run ArrNext (FArr xs # st) (more_tokens (e # es) @ rest)
          = parse_run WantValue (FArr xs # st) (number_tokens e @ more_tokens es @ rest)"
    by (simp add: more_tokens_def)
  also have "\<dots> = parse_run ArrNext (FArr (number_json e # xs) # st) (more_tokens es @ rest)"
    by (simp add: parse_number_tokens)
  finally show ?case using Cons.IH [of "number_json e # xs"] by simp
qed

lemma parse_response_tokens:
  "parse_run WantValue [] (response_tokens r) = Some (Done (response_json r), [])"
proof -
  let ?tail = "[TRBrack, TComma, TStr (lit ''summary''), TColon, TStr (summary r), TRBrace]"
  have start: "\<And>ts. parse_run WantValue [] (TLBrace # TStr (lit ''numbers'') # TColon # TLBrack # ts)
          = parse_run FirstElem [FArr [], FKey [] (lit ''numbers'')] ts"
    by (simp add: parse_value_def)
  have finish: "\<And>xs. parse_run ArrNext [FArr xs, FKey [] (lit ''numbers'')] ?tail
          = Some (Done (JObj [(lit ''numbers'', JArr (rev xs)), (lit ''summary'', JStr (summary r))]), [])"
    by (simp add: parse_value_def)
  show ?thesis
  proof (cases "numbers r")
    case Nil
    then show ?thesis
      by (simp add: response_tokens_def response_json_def parse_value_def)
  next
    case (Cons e es)
    have "parse_run WantValue [] (response_tokens r)
            = parse_run FirstElem [FArr [], FKey [] (lit ''numbers'')]
                (number_tokens e @ more_tokens es @ ?tail)"
      using Cons start by (simp add: response_tokens_def)
    also have "\<dots> = parse_run ArrNext [FArr [number_json e], FKey [] (lit ''numbers'')]
                (more_tokens es @ ?tail)"
      by (simp add: parse_number_tokens)
    also have "\<dots> = parse_run ArrNext
                [FArr (rev (map number_json es) @ [number_json e]), FKey [] (lit ''numbers'')] ?tail"
      by (rule parse_more_tokens)
    also have "\<dots> = Some (Done (response_json r), [])"
      using Cons by (simp only: finish) (simp add: response_json_def)
    finally show ?thesis .
  qed
qed

lemma parse_stringify: "JSON_parse (JSON_stringify r) = Some (response_json r)"
  by (simp add: JSON_parse_def tokenize_stringify parse_response_tokens)

lemma as_ExtractedNumber_json: "as_ExtractedNumber (number_json e) = Some e"
  by (simp add: number_json_def lit_def)

lemma all_some_numbers:
  "all_some (map (as_ExtractedNumber \<circ> number_json) es) = Some es"
  by (induction es) (simp_all add: as_ExtractedNumber_json)

lemma as_ExtractionResponse_json: "as_ExtractionResponse (response_json r) = Some r"
proof -
  have "lit ''numbers'' \<noteq> lit ''summary''" by (simp add: lit_def)
  then show ?thesis by (simp add: response_json_def all_some_numbers)
qed

lemma trim_between_marks:
  assumes "\<not> is_trim_ws a" "\<not> is_trim_ws b"
  shows "trim (a # m @ [b]) = a # m @ [b]"
  using assms by (simp add: trim_def)

lemma trim_stringify: "trim (JSON_stringify r) = JSON_stringify r"
proof -
  have e: "JSON_stringify r
          = 0x7B # (lit ''\"numbers\":['' @ join_comma (map stringify_number (numbers r))
                      @ lit ''],\"summary\":'' @ quote (summary r)) @ [0x7D]"
    by (simp add: JSON_stringify_def lit_def)
  show ?thesis
    unfolding e by (rule trim_between_marks) (simp_all add: is_trim_ws_def)
qed

lemma stringify_not_empty: "JSON_stringify r \<noteq> []"
  by (simp add: JSON_stringify_def lit_def)

text \<open>
  C9. An \<open>ExtractionResponse\<close> with any number of entries, written by \<open>JSON.stringify\<close>
  and read by \<open>JSON.parse\<close>, is the same object again, and seen at the declared type it
  is the response itself, so it has the same entries in the same order. Both copies of
  the adapter return that object when the provider answers with the serialized text.
\<close>

theorem response_round_trip:
  "JSON_parse (JSON_stringify r) = Some (response_json r)
   \<and> Option.bind (JSON_parse (JSON_stringify r)) as_ExtractionResponse = Some r
   \<and> try1 eng (Resolved (Some (JSON_stringify r))) = Inr (response_json r)
   \<and> try2 eng (Resolved (Some (JSON_stringify r))) = Inr (response_json r)"
proof -
  have p: "property (response_json r) (lit ''numbers'') = Some (JArr (map number_json (numbers r)))"
    by (simp add: response_json_def lit_def)
  have g: "get eng (Some (response_json r)) (lit ''numbers'')
             = Inr (Some (JArr (map number_json (numbers r))))"
    using p by (simp add: response_json_def)
  show ?thesis
    by (simp add: parse_stringify as_ExtractionResponse_json try1_def try2_def textOutput_def
        stringify_not_empty trim_stringify g)
qed

text \<open>C9, witness: a response with two entries.\<close>

theorem response_round_trip_witness:
  "Option.bind (JSON_parse (JSON_stringify TWO_ENTRIES)) as_ExtractionResponse = Some TWO_ENTRIES
   \<and> length (numbers TWO_ENTRIES) = 2"
proof -
  have "length (numbers TWO_ENTRIES) = 2" by (simp add: TWO_ENTRIES_def)
  then show ?thesis using response_round_trip [of TWO_ENTRIES sample_engine] by blast
qed

end
